theory Spec2Isabelle
  imports Complex_Main "HOL-Library.Word" "HOL-Library.Log_Nat"
begin

unbundle bit_operations_syntax

section \<open>JavaScript numbers and strings as the spoofing code uses them\<close>

text \<open>
  The generator state, the FNV-1a accumulator and every operand of a JavaScript bit
  operator is a 32-bit word. A seed handed to \<^verbatim>\<open>createPRNG\<close> or \<^verbatim>\<open>init\<close> is a
  JavaScript value: absent (\<^verbatim>\<open>undefined\<close>), \<^verbatim>\<open>null\<close>, \<^verbatim>\<open>NaN\<close> or an integral number.
  A string is its list of UTF-16 code units, which is what \<^verbatim>\<open>charCodeAt\<close> reads.
\<close>

type_synonym uint32 = "32 word"
type_synonym jsstring = "16 word list"

datatype jsnum = Undefined | Null | NaN | Num int

text \<open>\<^verbatim>\<open>!seed\<close> is true for undefined, null, NaN and 0.\<close>

fun truthy :: "jsnum \<Rightarrow> bool" where
  "truthy (Num n) = (n \<noteq> 0)"
| "truthy Undefined = False"
| "truthy Null = False"
| "truthy NaN = False"

text \<open>The global \<^verbatim>\<open>isNaN\<close> converts to a number first: undefined becomes NaN, null becomes 0.\<close>

fun isNaN :: "jsnum \<Rightarrow> bool" where
  "isNaN Undefined = True"
| "isNaN NaN = True"
| "isNaN Null = False"
| "isNaN (Num n) = False"

text \<open>\<^verbatim>\<open>v >>> 0\<close>: the value modulo \<open>2^32\<close>; NaN, undefined and null give 0.\<close>

fun ToUint32 :: "jsnum \<Rightarrow> uint32" where
  "ToUint32 (Num n) = word_of_int n"
| "ToUint32 Undefined = 0"
| "ToUint32 Null = 0"
| "ToUint32 NaN = 0"

text \<open>\<^verbatim>\<open>a ^ b\<close> on numbers: both operands to 32 bits, the result read as a signed 32-bit number.\<close>

definition js_xor :: "jsnum \<Rightarrow> jsnum \<Rightarrow> int" where
  "js_xor a b = sint (ToUint32 a XOR ToUint32 b)"

text \<open>\<^verbatim>\<open>a % b\<close> on integers: the remainder takes the sign of the dividend.\<close>

definition js_rem :: "int \<Rightarrow> int \<Rightarrow> int" where
  "js_rem a b = sgn a * (\<bar>a\<bar> mod \<bar>b\<bar>)"

text \<open>Template literals print an integer in decimal, and an absent element as \<^verbatim>\<open>undefined\<close>.\<close>

definition digit_char :: "nat \<Rightarrow> char" where
  "digit_char d = char_of (48 + d)"

fun show_nat :: "nat \<Rightarrow> string" where
  "show_nat n = (if n < 10 then [digit_char n] else show_nat (n div 10) @ [digit_char (n mod 10)])"

definition show_int :: "int \<Rightarrow> string" where
  "show_int i = (if i < 0 then CHR ''-'' # show_nat (nat (- i)) else show_nat (nat i))"

definition ascii :: "string \<Rightarrow> jsstring" where
  "ascii s = map of_char s"

text \<open>
  The result of an arithmetic operator on numbers is the exact result rounded to the nearest
  double: 53 significant bits, a tie going to the even one. \<open>binade q\<close> is the exponent \<open>e\<close>
  with \<open>2^e \<le> \<bar>q\<bar> < 2^(e+1)\<close>. The exponent is not bounded here: infinities and subnormal
  numbers are left out.
\<close>

definition round_half_even :: "rat \<Rightarrow> int" where
  "round_half_even q =
     (let f = \<lfloor>q\<rfloor>; d = q - of_int f
      in if d < 1 / 2 then f else if 1 / 2 < d then f + 1 else if even f then f else f + 1)"

definition binade :: "rat \<Rightarrow> int" where
  "binade q =
     (let c = bitlen (fst (quotient_of \<bar>q\<bar>)) - bitlen (snd (quotient_of \<bar>q\<bar>))
      in if 2 powi c \<le> \<bar>q\<bar> then c else c - 1)"

definition to_double :: "rat \<Rightarrow> rat" where
  "to_double q =
     (if q = 0 then 0
      else (let ulp = 2 powi (binade q - 52) in of_int (round_half_even (q / ulp)) * ulp))"

section \<open>The seeded generator (\<^verbatim>\<open>createPRNG\<close> of core.js and bootstrap.js)\<close>

text \<open>
  \<^verbatim>\<open>createPRNG(seed)\<close> returns an object closed over one variable \<^verbatim>\<open>state\<close>; the model of
  the object is that state. \<open>now\<close> is what \<^verbatim>\<open>Date.now()\<close> returns when the constructor reads it.
  \<^verbatim>\<open>if (!seed || isNaN(seed)) seed = Date.now(); state = seed >>> 0; if (state === 0) state = 1\<close>.
\<close>

definition createPRNG :: "int \<Rightarrow> jsnum \<Rightarrow> uint32" where
  "createPRNG now seed =
     (let seed1 = (if \<not> truthy seed \<or> isNaN seed then Num now else seed);
          state = ToUint32 seed1
      in if state = 0 then 1 else state)"

text \<open>
  \<^verbatim>\<open>state ^= state << 13; state ^= state >>> 17; state ^= state << 5; return state >>> 0\<close>.
  The function returns the new state; the number it returns to the caller is \<open>uint\<close> of it.
\<close>

definition xorshift32 :: "uint32 \<Rightarrow> uint32" where
  "xorshift32 state =
     (let s1 = state XOR push_bit 13 state;
          s2 = s1 XOR drop_bit 17 s1;
          s3 = s2 XOR push_bit 5 s2
      in s3)"

text \<open>
  Each drawing method returns the advanced state and its result. \<^verbatim>\<open>xorshift32() / 4294967296\<close>
  is exact in a double. \<^verbatim>\<open>randomInt\<close> is
  \<^verbatim>\<open>min = Math.ceil(min); max = Math.floor(max);
  return Math.floor(xorshift32() / 4294967296 * (max - min + 1)) + min\<close>
  on arguments that are doubles: the difference, the sum with 1, the product and the final
  sum are each rounded. \<^verbatim>\<open>randomRange\<close> is given as the exact rational that the double result
  rounds.
\<close>

definition random_js :: "uint32 \<Rightarrow> uint32 \<times> rat" where
  "random_js state = (let s = xorshift32 state in (s, of_int (uint s) / 4294967296))"

definition randomInt :: "uint32 \<Rightarrow> rat \<Rightarrow> rat \<Rightarrow> uint32 \<times> int" where
  "randomInt state mn mx =
     (let mn1 = \<lceil>mn\<rceil>;
          mx1 = \<lfloor>mx\<rfloor>;
          s = xorshift32 state;
          n = to_double (to_double (of_int mx1 - of_int mn1) + 1);
          p = to_double (of_int (uint s) / 4294967296 * n)
      in (s, \<lfloor>to_double (of_int \<lfloor>p\<rfloor> + of_int mn1)\<rfloor>))"

definition randomRange :: "uint32 \<Rightarrow> rat \<Rightarrow> rat \<Rightarrow> uint32 \<times> rat" where
  "randomRange state mn mx =
     (let s = xorshift32 state in (s, mn + (of_int (uint s) / 4294967296) * (mx - mn)))"

text \<open>
  \<^verbatim>\<open>hash(str)\<close>: FNV-1a, \<^verbatim>\<open>hash ^= str.charCodeAt(i); hash = Math.imul(hash, FNV_PRIME)\<close>
  from the offset basis. It does not read or write the state.
\<close>

fun fnv1a :: "uint32 \<Rightarrow> jsstring \<Rightarrow> uint32" where
  "fnv1a h [] = h"
| "fnv1a h (c # cs) = fnv1a ((h XOR ucast c) * 16777619) cs"

definition hash :: "jsstring \<Rightarrow> uint32" where
  "hash str = fnv1a 2166136261 str"

text \<open>A call sequence on one generator, and the outputs it returns in order.\<close>

datatype call = Random | RandomInt rat rat | RandomRange rat rat | Hash jsstring

datatype outcome = OutFloat rat | OutInt int | OutHash uint32

fun perform :: "uint32 \<Rightarrow> call \<Rightarrow> uint32 \<times> outcome" where
  "perform state Random = (let (s, r) = random_js state in (s, OutFloat r))"
| "perform state (RandomInt mn mx) = (let (s, r) = randomInt state mn mx in (s, OutInt r))"
| "perform state (RandomRange mn mx) = (let (s, r) = randomRange state mn mx in (s, OutFloat r))"
| "perform state (Hash str) = (state, OutHash (hash str))"

fun drive :: "uint32 \<Rightarrow> call list \<Rightarrow> outcome list" where
  "drive state [] = []"
| "drive state (c # cs) = (let (s, out) = perform state c in out # drive s cs)"

text \<open>
  The content generator of \<^verbatim>\<open>spoofGetImageData\<close>:
  \<^verbatim>\<open>createPRNG(sessionSeed ^ prng.hash(contentFingerprint))\<close>.
\<close>

definition contentPRNG :: "int \<Rightarrow> jsnum \<Rightarrow> jsstring \<Rightarrow> uint32" where
  "contentPRNG now seed contentFingerprint =
     createPRNG now (Num (js_xor seed (Num (uint (hash contentFingerprint)))))"

section \<open>Session seed derivation (\<^verbatim>\<open>generateSessionSeed\<close>)\<close>

text \<open>
  The entropy one call reads: \<^verbatim>\<open>Date.now()\<close> as \<open>timestamp\<close>, and the eight bytes of the
  \<^verbatim>\<open>Float64Array\<close> holding \<^verbatim>\<open>Math.random() * 1000000\<close> as \<open>randomBytes\<close>.
  \<open>prngNow\<close> is the later \<^verbatim>\<open>Date.now()\<close> that \<^verbatim>\<open>createPRNG\<close> reads when it rejects its seed.
\<close>

record entropy =
  timestamp :: int
  randomBytes :: "8 word list"
  prngNow :: int

text \<open>
  \<^verbatim>\<open>(timestamp >> (i * 8)) & 0xFF\<close>: the timestamp is cut to 32 bits and the shift count
  is taken modulo 32, as JavaScript's \<^verbatim>\<open>>>\<close> does.
\<close>

definition timestamp_byte :: "int \<Rightarrow> nat \<Rightarrow> uint32" where
  "timestamp_byte ts i = signed_drop_bit ((i * 8) mod 32) (word_of_int ts :: uint32) AND 255"

fun mix_bytes :: "uint32 \<Rightarrow> uint32 list \<Rightarrow> uint32" where
  "mix_bytes h [] = h"
| "mix_bytes h (b # bs) = mix_bytes ((h XOR b) * 16777619) bs"

definition generateSessionSeed :: "entropy \<Rightarrow> uint32" where
  "generateSessionSeed e =
     (let h1 = mix_bytes 2166136261 (map (timestamp_byte (timestamp e)) [0..<8])
      in mix_bytes h1 (map ucast (randomBytes e)))"

section \<open>The 2D canvas module (bootstrap.js, canvas.js)\<close>

subsection \<open>Errors, logging and the fallback wrapper\<close>

datatype jserror = HostError string | TypeError | ReferenceError | HardBlocked string

record spoof_mode =
  failSilently :: bool
  logErrors :: bool
  hardBlock :: bool

definition SPOOF_MODE :: spoof_mode where
  "SPOOF_MODE = \<lparr>failSilently = True, logErrors = True, hardBlock = False\<rparr>"

text \<open>
  \<^verbatim>\<open>logError(module, error, context)\<close> writes one console line unless \<^verbatim>\<open>logErrors\<close> is off.
  A line is kept as (module, context, error); its clock prefix is left out.
\<close>

type_synonym console_line = "string \<times> string \<times> jserror"

definition logError :: "spoof_mode \<Rightarrow> string \<Rightarrow> jserror \<Rightarrow> string \<Rightarrow> console_line list" where
  "logError mode module_name error ctxt =
     (if \<not> logErrors mode then [] else [(module_name, ctxt, error)])"

text \<open>
  \<^verbatim>\<open>tryOrFallback(nativeFn, spoofFn, context, args, moduleName)\<close>. A function that may
  throw returns \<open>Inl\<close> of the error. The result is the console output and what the call
  returns or throws.
\<close>

definition tryOrFallback ::
  "spoof_mode \<Rightarrow> ('c \<Rightarrow> 'a \<Rightarrow> jserror + 'r) \<Rightarrow> ('c \<Rightarrow> 'a \<Rightarrow> jserror + 'r) \<Rightarrow> 'c \<Rightarrow> 'a \<Rightarrow> string
     \<Rightarrow> console_line list \<times> (jserror + 'r)" where
  "tryOrFallback mode nativeFn spoofFn this args moduleName =
     (case spoofFn this args of
        Inr v \<Rightarrow> ([], Inr v)
      | Inl error \<Rightarrow>
          (logError mode moduleName error ''Spoofing failed, falling back to native'',
           if hardBlock mode then Inl (HardBlocked moduleName) else nativeFn this args))"

subsection \<open>Module state and configuration\<close>

record canvas_config =
  pixelNoiseRange :: int
  alphaNoiseRange :: int

definition canvasConfig0 :: canvas_config where
  "canvasConfig0 = \<lparr>pixelNoiseRange = 5, alphaNoiseRange = 3\<rparr>"

text \<open>The caller's \<^verbatim>\<open>options\<close>: each recognised key is present or not.\<close>

record options =
  opt_pixelNoiseRange :: "int option"
  opt_alphaNoiseRange :: "int option"

definition assign_options :: "canvas_config \<Rightarrow> options \<Rightarrow> canvas_config" where
  "assign_options cfg opts =
     \<lparr>pixelNoiseRange = (case opt_pixelNoiseRange opts of None \<Rightarrow> pixelNoiseRange cfg | Some v \<Rightarrow> v),
      alphaNoiseRange = (case opt_alphaNoiseRange opts of None \<Rightarrow> alphaNoiseRange cfg | Some v \<Rightarrow> v)\<rparr>"

text \<open>
  A function object is known by its identity: \<open>NullFn\<close> is \<^verbatim>\<open>null\<close>, \<open>Native k\<close> a host
  function, \<open>Wrapper m\<close> the replacement \<^verbatim>\<open>patch\<close> installs for method \<open>m\<close>, and
  \<open>ContextWrapper f\<close> the \<^verbatim>\<open>getImageData\<close> replacement that \<^verbatim>\<open>spoofGetContext\<close> puts on one
  context object, closed over the function \<open>f\<close> it found there.
\<close>

datatype method_name = GetImageData | ToDataURL | GetContext

datatype fnref = NullFn | Native nat | Wrapper method_name | ContextWrapper fnref

record original_methods =
  om_getImageData :: fnref
  om_toDataURL :: fnref
  om_getContext :: fnref

text \<open>
  The host's globals: \<open>None\<close> when the global is not defined (reading it throws a
  ReferenceError), otherwise the method slots of its prototype.
\<close>

record canvas_prototype =
  toDataURL_slot :: fnref
  getContext_slot :: fnref

record page =
  CanvasRenderingContext2D :: "fnref option"
  HTMLCanvasElement :: "canvas_prototype option"

record canvas_module =
  prng :: "uint32 option"
  sessionSeed :: jsnum
  isPatched :: bool
  originalMethods :: original_methods
  canvasConfig :: canvas_config
  host :: page

definition module0 :: "page \<Rightarrow> canvas_module" where
  "module0 pg =
     \<lparr>prng = None, sessionSeed = Null, isPatched = False,
      originalMethods = \<lparr>om_getImageData = NullFn, om_toDataURL = NullFn, om_getContext = NullFn\<rparr>,
      canvasConfig = canvasConfig0, host = pg\<rparr>"

subsection \<open>\<^verbatim>\<open>init\<close> and \<^verbatim>\<open>getStatus\<close>\<close>

text \<open>
  \<^verbatim>\<open>sessionSeed = seed || generateSessionSeed(); prng = createPRNG(sessionSeed);
  Object.assign(canvasConfig, options)\<close>.
\<close>

definition init :: "entropy \<Rightarrow> jsnum \<Rightarrow> options \<Rightarrow> canvas_module \<Rightarrow> canvas_module" where
  "init e seed opts m =
     (let seed1 = (if truthy seed then seed else Num (uint (generateSessionSeed e)))
      in m\<lparr>sessionSeed := seed1,
            prng := Some (createPRNG (prngNow e) seed1),
            canvasConfig := assign_options (canvasConfig m) opts\<rparr>)"

definition getStatus :: "canvas_module \<Rightarrow> bool \<times> jsnum \<times> canvas_config" where
  "getStatus m = (isPatched m, sessionSeed m, canvasConfig m)"

subsection \<open>\<^verbatim>\<open>patch\<close> and \<^verbatim>\<open>unpatch\<close>\<close>

text \<open>
  \<^verbatim>\<open>patch\<close> reads the three prototype slots into \<^verbatim>\<open>originalMethods\<close>, then replaces
  them. Reading a global that is not defined throws; the \<^verbatim>\<open>catch\<close> sets
  \<^verbatim>\<open>isPatched = false\<close> and returns false, with the assignments made so far kept.
\<close>

definition patch :: "canvas_module \<Rightarrow> canvas_module \<times> bool" where
  "patch m =
     (if isPatched m then (m, True)
      else
        (case CanvasRenderingContext2D (host m) of
           None \<Rightarrow> (m\<lparr>isPatched := False\<rparr>, False)
         | Some gid \<Rightarrow>
             (case HTMLCanvasElement (host m) of
                None \<Rightarrow>
                  (m\<lparr>originalMethods := (originalMethods m)\<lparr>om_getImageData := gid\<rparr>,
                     isPatched := False\<rparr>, False)
              | Some cp \<Rightarrow>
                  (m\<lparr>originalMethods :=
                       \<lparr>om_getImageData = gid, om_toDataURL = toDataURL_slot cp,
                        om_getContext = getContext_slot cp\<rparr>,
                     host :=
                       \<lparr>CanvasRenderingContext2D = Some (Wrapper GetImageData),
                        HTMLCanvasElement =
                          Some \<lparr>toDataURL_slot = Wrapper ToDataURL,
                                getContext_slot = Wrapper GetContext\<rparr>\<rparr>,
                     isPatched := True\<rparr>, True))))"

text \<open>
  \<^verbatim>\<open>unpatch\<close> writes the three captured references back. A global that is not defined
  throws at its assignment; the \<^verbatim>\<open>catch\<close> returns false and leaves \<^verbatim>\<open>isPatched\<close> as it was.
\<close>

definition unpatch :: "canvas_module \<Rightarrow> canvas_module \<times> bool" where
  "unpatch m =
     (if \<not> isPatched m then (m, True)
      else
        (case CanvasRenderingContext2D (host m) of
           None \<Rightarrow> (m, False)
         | Some w \<Rightarrow>
             (case HTMLCanvasElement (host m) of
                None \<Rightarrow>
                  (m\<lparr>host := (host m)\<lparr>CanvasRenderingContext2D :=
                                        Some (om_getImageData (originalMethods m))\<rparr>\<rparr>, False)
              | Some cp \<Rightarrow>
                  (m\<lparr>host :=
                       \<lparr>CanvasRenderingContext2D = Some (om_getImageData (originalMethods m)),
                        HTMLCanvasElement =
                          Some \<lparr>toDataURL_slot = om_toDataURL (originalMethods m),
                                getContext_slot = om_getContext (originalMethods m)\<rparr>\<rparr>,
                     isPatched := False\<rparr>, True))))"

subsection \<open>Pixel read-back noise (\<^verbatim>\<open>spoofGetImageData\<close>)\<close>

text \<open>
  An \<^verbatim>\<open>ImageData\<close> buffer is the list of its elements. Reading past the end gives
  \<^verbatim>\<open>undefined\<close>; a store past the end does nothing; a store into a
  \<^verbatim>\<open>Uint8ClampedArray\<close> clamps an integer to 0..255.
\<close>

record canvas_element =
  width :: nat
  height :: nat
  element_id :: jsstring

definition element :: "int list \<Rightarrow> nat \<Rightarrow> int option" where
  "element buf k = (if k < length buf then Some (buf ! k) else None)"

definition clamp8 :: "int \<Rightarrow> int" where
  "clamp8 v = max 0 (min 255 v)"

definition store_clamped :: "int list \<Rightarrow> nat \<Rightarrow> int \<Rightarrow> int list" where
  "store_clamped buf k v = (if k < length buf then buf[k := clamp8 v] else buf)"

text \<open>\<^verbatim>\<open>data[k] = Math.max(0, Math.min(255, data[k] + noise))\<close>.\<close>

definition add_noise :: "int list \<Rightarrow> nat \<Rightarrow> int \<Rightarrow> int list" where
  "add_noise buf k noise =
     (case element buf k of
        None \<Rightarrow> buf
      | Some v \<Rightarrow> store_clamped buf k (max 0 (min 255 (v + noise))))"

definition sample :: "int list \<Rightarrow> nat \<Rightarrow> string" where
  "sample buf k = (case element buf k of None \<Rightarrow> ''undefined'' | Some v \<Rightarrow> show_int v)"

text \<open>
  \<^verbatim>\<open>`${canvasEl.width}x${canvasEl.height}:${data[0]}${data[100]}${data[1000]}`\<close>
\<close>

definition contentFingerprint :: "canvas_element \<Rightarrow> int list \<Rightarrow> jsstring" where
  "contentFingerprint canvasEl buf =
     ascii (show_nat (width canvasEl) @ ''x'' @ show_nat (height canvasEl) @ '':'' @
            sample buf 0 @ sample buf 100 @ sample buf 1000)"

text \<open>
  One pass through the body of \<^verbatim>\<open>for (let i = 0; i < data.length; i += 4)\<close> in
  \<^verbatim>\<open>spoofGetImageData\<close>: three draws for the colour channels and, when the alpha byte is
  255, a fourth for alpha, which is stored without \<^verbatim>\<open>Math.max\<close> or \<^verbatim>\<open>Math.min\<close>. The pass
  returns the content generator's state and the buffer.
\<close>

definition noisePixel :: "uint32 \<Rightarrow> int \<Rightarrow> int \<Rightarrow> nat \<Rightarrow> int list \<Rightarrow> uint32 \<times> int list" where
  "noisePixel st pixelRange alphaRange i buf =
     (let (s1, rNoise) = randomInt st (of_int (- pixelRange)) (of_int pixelRange);
          (s2, gNoise) = randomInt s1 (of_int (- pixelRange)) (of_int pixelRange);
          (s3, bNoise) = randomInt s2 (of_int (- pixelRange)) (of_int pixelRange);
          d1 = add_noise buf i rNoise;
          d2 = add_noise d1 (i + 1) gNoise;
          d3 = add_noise d2 (i + 2) bNoise
      in if element d3 (i + 3) = Some 255 then
           (let (s4, aNoise) = randomInt s3 0 (of_int alphaRange)
            in (s4, store_clamped d3 (i + 3) (255 - aNoise)))
         else (s3, d3))"

text \<open>The loop from index \<open>i\<close> on.\<close>

function noiseLoop :: "uint32 \<Rightarrow> int \<Rightarrow> int \<Rightarrow> nat \<Rightarrow> int list \<Rightarrow> int list" where
  "noiseLoop st pixelRange alphaRange i buf =
     (if i < length buf then
        (case noisePixel st pixelRange alphaRange i buf of
           (s, d) \<Rightarrow> noiseLoop s pixelRange alphaRange (i + 4) d)
      else buf)"
  by pat_completeness auto
termination
proof (relation "measure (\<lambda>(st, pixelRange, alphaRange, i, buf). length buf - i)")
  show "wf (measure (\<lambda>(st, pixelRange, alphaRange, i, buf). length buf - i))" by simp
next
  fix st s :: uint32 and pixelRange alphaRange :: int and i :: nat and buf d :: "int list"
  assume "i < length buf" and "(s, d) = noisePixel st pixelRange alphaRange i buf"
  then have "length d = length buf"
    by (auto simp: noisePixel_def add_noise_def store_clamped_def Let_def
             split: prod.splits option.splits if_splits)
  then show "((s, pixelRange, alphaRange, i + 4, d), (st, pixelRange, alphaRange, i, buf))
             \<in> measure (\<lambda>(st, pixelRange, alphaRange, i, buf). length buf - i)"
    using \<open>i < length buf\<close> by auto
qed

text \<open>
  \<^verbatim>\<open>spoofGetImageData\<close>: the receiver is a 2D context, known by its canvas; \<open>originalFn\<close>
  returns the data of a fresh \<^verbatim>\<open>ImageData\<close> or throws. \<^verbatim>\<open>prng.hash\<close> throws a TypeError
  while \<^verbatim>\<open>prng\<close> is still null.
\<close>

type_synonym rect = "int \<times> int \<times> int \<times> int"

definition spoofGetImageData ::
  "int \<Rightarrow> canvas_module \<Rightarrow> (canvas_element \<Rightarrow> rect \<Rightarrow> jserror + int list)
     \<Rightarrow> canvas_element \<Rightarrow> rect \<Rightarrow> jserror + int list" where
  "spoofGetImageData now m originalFn this r =
     (case originalFn this r of
        Inl e \<Rightarrow> Inl e
      | Inr buf \<Rightarrow>
          (case prng m of
             None \<Rightarrow> Inl TypeError
           | Some p \<Rightarrow>
               Inr (noiseLoop (contentPRNG now (sessionSeed m) (contentFingerprint this buf))
                      (pixelNoiseRange (canvasConfig m)) (alphaNoiseRange (canvasConfig m)) 0 buf)))"

text \<open>
  A page may call \<^verbatim>\<open>getImageData\<close> with a fifth argument, \<^verbatim>\<open>settings\<close>; the argument list of
  a call is the rectangle and that argument, \<open>None\<close> when it is left out. A function called
  as \<^verbatim>\<open>f.call(this, sx, sy, sw, sh)\<close> or \<^verbatim>\<open>f.apply(context, [sx, sy, sw, sh])\<close> gets the
  rectangle alone.
\<close>

definition four_arguments ::
  "(canvas_element \<Rightarrow> rect \<times> 's option \<Rightarrow> 'r) \<Rightarrow> canvas_element \<Rightarrow> rect \<Rightarrow> 'r" where
  "four_arguments f this r = f this (r, None)"

text \<open>
  The replacement for \<^verbatim>\<open>getImageData\<close>, \<^verbatim>\<open>function(sx, sy, sw, sh)\<close>. \<^verbatim>\<open>patch\<close> puts it on
  the prototype, closed over \<^verbatim>\<open>originalMethods.getImageData\<close>; \<^verbatim>\<open>spoofGetContext\<close> puts the
  same function body on a context, closed over the function found on that context.
  \<open>nativeFn\<close> is the function it is closed over. Both the spoof path and the fallback call
  it with the four named parameters.
\<close>

definition wrapped_getImageData ::
  "spoof_mode \<Rightarrow> int \<Rightarrow> canvas_module
     \<Rightarrow> (canvas_element \<Rightarrow> rect \<times> 's option \<Rightarrow> jserror + int list)
     \<Rightarrow> canvas_element \<Rightarrow> rect \<times> 's option \<Rightarrow> console_line list \<times> (jserror + int list)" where
  "wrapped_getImageData mode now m nativeFn this args =
     tryOrFallback mode (four_arguments nativeFn)
       (spoofGetImageData now m (four_arguments nativeFn)) this (fst args) ''canvas.getImageData''"

text \<open>
  What a page calls on a 2D context that it got from the patched \<^verbatim>\<open>getContext\<close>: the
  replacement on the context, closed over the replacement on the prototype, which is closed
  over the host's method. \<open>now1\<close> is the clock as the inner replacement reads it, \<open>now2\<close> as
  the outer one reads it. The console lines are those of the outer replacement.
\<close>

definition context_getImageData ::
  "spoof_mode \<Rightarrow> int \<Rightarrow> int \<Rightarrow> canvas_module
     \<Rightarrow> (canvas_element \<Rightarrow> rect \<times> 's option \<Rightarrow> jserror + int list)
     \<Rightarrow> canvas_element \<Rightarrow> rect \<times> 's option \<Rightarrow> console_line list \<times> (jserror + int list)" where
  "context_getImageData mode now1 now2 m nativeFn this args =
     wrapped_getImageData mode now2 m
       (\<lambda>c a. snd (wrapped_getImageData mode now1 m nativeFn c a)) this args"

subsection \<open>Canvas export (\<^verbatim>\<open>applyCanvasTransform\<close>, \<^verbatim>\<open>spoofToDataURL\<close>)\<close>

record transform =
  scaleX :: rat
  scaleY :: rat
  translateX :: rat
  translateY :: rat
  rotate_by :: rat

text \<open>Five draws from the generator it is given; the state after them is returned.\<close>

definition applyCanvasTransform :: "uint32 \<Rightarrow> uint32 \<times> transform" where
  "applyCanvasTransform p =
     (let (p1, sx) = randomRange p (- (2 / 1000)) (2 / 1000);
          (p2, sy) = randomRange p1 (- (2 / 1000)) (2 / 1000);
          (p3, tx) = randomRange p2 (- (3 / 10)) (3 / 10);
          (p4, ty) = randomRange p3 (- (3 / 10)) (3 / 10);
          (p5, ro) = randomRange p4 (- (2 / 1000)) (2 / 1000)
      in (p5, \<lparr>scaleX = 1 + sx, scaleY = 1 + sy, translateX = tx, translateY = ty, rotate_by = ro\<rparr>))"

text \<open>
  \<^verbatim>\<open>spoofToDataURL\<close> creates a temporary canvas and its 2D context (\<open>prepare\<close>, which
  returns the error the host throws, if any), draws the five transform values, and has the
  host draw the canvas through the transform and serialise the copy (\<open>render\<close>). The
  session generator is advanced in place; the new module state is returned with the result.
\<close>

definition spoofToDataURL ::
  "canvas_module \<Rightarrow> (canvas_element \<Rightarrow> jserror option)
     \<Rightarrow> (transform \<Rightarrow> canvas_element \<Rightarrow> 'a \<Rightarrow> jserror + string)
     \<Rightarrow> canvas_element \<Rightarrow> 'a \<Rightarrow> canvas_module \<times> (jserror + string)" where
  "spoofToDataURL m prepare render this args =
     (case prepare this of
        Some e \<Rightarrow> (m, Inl e)
      | None \<Rightarrow>
          (case prng m of
             None \<Rightarrow> (m, Inl TypeError)
           | Some p \<Rightarrow>
               (let (p5, t) = applyCanvasTransform p
                in (m\<lparr>prng := Some p5\<rparr>, render t this args))))"

definition wrapped_toDataURL ::
  "spoof_mode \<Rightarrow> canvas_module \<Rightarrow> (canvas_element \<Rightarrow> 'a \<Rightarrow> jserror + string)
     \<Rightarrow> (canvas_element \<Rightarrow> jserror option)
     \<Rightarrow> (transform \<Rightarrow> canvas_element \<Rightarrow> 'a \<Rightarrow> jserror + string)
     \<Rightarrow> canvas_element \<Rightarrow> 'a \<Rightarrow> canvas_module \<times> console_line list \<times> (jserror + string)" where
  "wrapped_toDataURL mode m nativeFn prepare render this args =
     (let (m1, res) = spoofToDataURL m prepare render this args
      in (m1, tryOrFallback mode nativeFn (\<lambda>c a. res) this args ''canvas.toDataURL''))"

subsection \<open>Context creation (\<^verbatim>\<open>spoofGetContext\<close>)\<close>

text \<open>
  A context object is known by its identity; \<open>None\<close> is the \<^verbatim>\<open>null\<close> that the host's
  \<^verbatim>\<open>getContext\<close> returns for a type it cannot give. The table of context objects holds the
  contexts that carry the \<^verbatim>\<open>__obscura_processed\<close> mark, and for each context the
  \<^verbatim>\<open>getImageData\<close> property of its own, if it has one. \<^verbatim>\<open>ctx.getImageData\<close> reads that
  property, or else the slot of the prototype (\<open>proto\<close>).
\<close>

record context_table =
  processed :: "nat set"
  own_getImageData :: "nat \<Rightarrow> fnref option"

definition lookup_getImageData :: "context_table \<Rightarrow> fnref \<Rightarrow> nat \<Rightarrow> fnref" where
  "lookup_getImageData tbl proto ctx =
     (case own_getImageData tbl ctx of Some f \<Rightarrow> f | None \<Rightarrow> proto)"

text \<open>
  \<^verbatim>\<open>spoofGetContext\<close>. Reading the mark of \<^verbatim>\<open>null\<close> throws a TypeError. A 2D context seen
  for the first time is marked, and its \<^verbatim>\<open>getImageData\<close> is replaced by a wrapper of the
  function read from it at that moment: after \<^verbatim>\<open>patch\<close> that function is the replacement on
  the prototype, so a read-back through the context runs \<open>context_getImageData\<close>. The function
  returns the same object.
\<close>

definition spoofGetContext ::
  "context_table \<Rightarrow> fnref \<Rightarrow> (canvas_element \<Rightarrow> string \<times> 'a \<Rightarrow> jserror + nat option)
     \<Rightarrow> canvas_element \<Rightarrow> string \<times> 'a \<Rightarrow> context_table \<times> (jserror + nat option)" where
  "spoofGetContext tbl proto originalFn this args =
     (if fst args \<noteq> ''2d'' then (tbl, originalFn this args)
      else
        (case originalFn this args of
           Inl e \<Rightarrow> (tbl, Inl e)
         | Inr None \<Rightarrow> (tbl, Inl TypeError)
         | Inr (Some ctx) \<Rightarrow>
             (if ctx \<in> processed tbl then (tbl, Inr (Some ctx))
              else (tbl\<lparr>processed := insert ctx (processed tbl),
                        own_getImageData :=
                          (own_getImageData tbl)
                            (ctx \<mapsto> ContextWrapper (lookup_getImageData tbl proto ctx))\<rparr>,
                    Inr (Some ctx)))))"

definition wrapped_getContext ::
  "spoof_mode \<Rightarrow> context_table \<Rightarrow> fnref
     \<Rightarrow> (canvas_element \<Rightarrow> string \<times> 'a \<Rightarrow> jserror + nat option)
     \<Rightarrow> canvas_element \<Rightarrow> string \<times> 'a
     \<Rightarrow> context_table \<times> console_line list \<times> (jserror + nat option)" where
  "wrapped_getContext mode tbl proto nativeFn this args =
     (let (t1, res) = spoofGetContext tbl proto nativeFn this args
      in (t1, tryOrFallback mode nativeFn (\<lambda>c a. res) this args ''canvas.getContext''))"

section \<open>The WebGL module (browser-entry.js)\<close>

subsection \<open>Profiles and session state\<close>

datatype jsval = JUndefined | JNull | JNumber int | JString string | JObject nat

text \<open>
  The fields of a profile that the code reads. The parameter tables and extension lists of
  the catalogue are data no function of the module looks at.
\<close>

record gpu_profile =
  profile_name :: string
  vendor :: string
  renderer :: string
  unmaskedVendor :: string
  unmaskedRenderer :: string
  gpuVendor :: string
  gpuTier :: string
  supportsWebGL2 :: bool

definition nvidia_rtx_3080 :: gpu_profile where
  "nvidia_rtx_3080 =
     \<lparr>profile_name = ''nvidia_rtx_3080'', vendor = ''WebKit'', renderer = ''WebKit WebGL'',
      unmaskedVendor = ''Google Inc. (NVIDIA)'',
      unmaskedRenderer = ''ANGLE (NVIDIA, NVIDIA GeForce RTX 3080 Direct3D11 vs_5_0 ps_5_0, D3D11)'',
      gpuVendor = ''nvidia'', gpuTier = ''high'', supportsWebGL2 = True\<rparr>"

definition amd_radeon_rx_6800 :: gpu_profile where
  "amd_radeon_rx_6800 =
     \<lparr>profile_name = ''amd_radeon_rx_6800'', vendor = ''WebKit'', renderer = ''WebKit WebGL'',
      unmaskedVendor = ''Google Inc. (AMD)'',
      unmaskedRenderer = ''ANGLE (AMD, AMD Radeon RX 6800 XT Direct3D11 vs_5_0 ps_5_0, D3D11)'',
      gpuVendor = ''amd'', gpuTier = ''high'', supportsWebGL2 = True\<rparr>"

definition profiles :: "gpu_profile list" where
  "profiles = [nvidia_rtx_3080, amd_radeon_rx_6800]"

text \<open>
  \<^verbatim>\<open>profiles[Math.floor(prng.random() * profiles.length)]\<close>; \<open>r\<close> is the number that
  \<^verbatim>\<open>prng.random()\<close> returned. An index outside the list gives \<^verbatim>\<open>undefined\<close>.
\<close>

definition selectProfile :: "rat \<Rightarrow> gpu_profile option" where
  "selectProfile r =
     (let profileIndex = \<lfloor>r * of_nat (length profiles)\<rfloor>
      in if 0 \<le> profileIndex \<and> profileIndex < int (length profiles)
         then Some (profiles ! nat profileIndex) else None)"

text \<open>
  The module-level variables a wrapper can see once \<^verbatim>\<open>initialize\<close> has run: the
  configured seed, the state of the session generator, the selected profile and the
  \<^verbatim>\<open>enabled\<close> flag.
\<close>

record webgl_session =
  config_seed :: jsnum
  session_prng :: uint32
  activeProfile :: gpu_profile
  enabled :: bool

text \<open>The constants a wrapper reads from the context object.\<close>

record gl_constants =
  VENDOR :: jsval
  RENDERER :: jsval
  RGB :: jsval

definition webgl_constants :: gl_constants where
  "webgl_constants = \<lparr>VENDOR = JNumber 0x1F00, RENDERER = JNumber 0x1F01, RGB = JNumber 0x1907\<rparr>"

subsection \<open>The \<^verbatim>\<open>getParameter\<close> wrapper\<close>

definition UNMASKED_VENDOR_WEBGL :: jsval where
  "UNMASKED_VENDOR_WEBGL = JNumber 0x9245"

definition UNMASKED_RENDERER_WEBGL :: jsval where
  "UNMASKED_RENDERER_WEBGL = JNumber 0x9246"

definition getParameter_spoofed ::
  "webgl_session \<Rightarrow> gl_constants \<Rightarrow> (jsval \<Rightarrow> jserror + jsval) \<Rightarrow> jsval \<Rightarrow> jserror + jsval" where
  "getParameter_spoofed sess gl originalGetParameter pname =
     (if pname = UNMASKED_VENDOR_WEBGL then Inr (JString (unmaskedVendor (activeProfile sess)))
      else if pname = UNMASKED_RENDERER_WEBGL then Inr (JString (unmaskedRenderer (activeProfile sess)))
      else if pname = VENDOR gl then Inr (JString (vendor (activeProfile sess)))
      else if pname = RENDERER gl then Inr (JString (renderer (activeProfile sess)))
      else originalGetParameter pname)"

subsection \<open>The \<^verbatim>\<open>readPixels\<close> wrapper\<close>

text \<open>
  \<^verbatim>\<open>hash = ((hash << 5) - hash) + seed.charCodeAt(i); hash = hash & hash\<close>: the sum is cut
  to 32 bits; the number the code goes on with is \<open>sint\<close> of the word.
\<close>

fun shift_hash :: "uint32 \<Rightarrow> jsstring \<Rightarrow> uint32" where
  "shift_hash h [] = h"
| "shift_hash h (c # cs) = shift_hash ((push_bit 5 h - h) + ucast c) cs"

text \<open>
  \<^verbatim>\<open>pixelNoise(index)\<close>, closed over the arguments \<open>x, y, width, height\<close> of the call:
  the seed is \<^verbatim>\<open>`${x},${y},${width},${height},${index}`\<close> and the result \<^verbatim>\<open>(hash % 7) - 3\<close>.
\<close>

definition pixelNoise :: "int \<Rightarrow> int \<Rightarrow> int \<Rightarrow> int \<Rightarrow> nat \<Rightarrow> int" where
  "pixelNoise x y w h index =
     js_rem (sint (shift_hash 0 (ascii (show_int x @ '','' @ show_int y @ '','' @ show_int w @ '','' @
                                         show_int h @ '','' @ show_nat index)))) 7 - 3"

text \<open>\<^verbatim>\<open>const components = format === gl.RGB ? 3 : 4\<close>, and the inner bound
  \<^verbatim>\<open>components > 3 ? 3 : components\<close>.\<close>

definition components_of :: "bool \<Rightarrow> nat" where
  "components_of isRGB = (if isRGB then 3 else 4)"

definition channels_of :: "nat \<Rightarrow> nat" where
  "channels_of components = (if components > 3 then 3 else components)"

text \<open>The inner loop over \<open>j\<close>: \<^verbatim>\<open>pixels[i + j] = Math.max(0, Math.min(255, pixels[i + j] + noise))\<close>.\<close>

definition noise_channels :: "int \<Rightarrow> int \<Rightarrow> int \<Rightarrow> int \<Rightarrow> nat \<Rightarrow> nat \<Rightarrow> int list \<Rightarrow> int list" where
  "noise_channels x y w h channels i buf =
     foldl (\<lambda>b j. case element b (i + j) of
                     None \<Rightarrow> b
                   | Some v \<Rightarrow> b[i + j := max 0 (min 255 (v + pixelNoise x y w h (i + j)))])
           buf [0..<channels]"

function readbackLoop :: "int \<Rightarrow> int \<Rightarrow> int \<Rightarrow> int \<Rightarrow> bool \<Rightarrow> nat \<Rightarrow> int list \<Rightarrow> int list" where
  "readbackLoop x y w h isRGB i buf =
     (if i < length buf then
        readbackLoop x y w h isRGB (i + components_of isRGB)
          (noise_channels x y w h (channels_of (components_of isRGB)) i buf)
      else buf)"
  by pat_completeness auto
termination
proof (relation "measure (\<lambda>(x, y, w, h, isRGB, i, buf). length buf - i)")
  show "wf (measure (\<lambda>(x, y, w, h, isRGB, i, buf). length buf - i))" by simp
next
  fix x y w h :: int and isRGB :: bool and i :: nat and buf :: "int list"
  assume "i < length buf"
  have len: "length (foldl (\<lambda>b j. case element b (i + j) of
                     None \<Rightarrow> b
                   | Some v \<Rightarrow> b[i + j := max 0 (min 255 (v + pixelNoise x y w h (i + j)))]) b0 js)
             = length b0" for b0 js
    by (induction js arbitrary: b0) (auto split: option.splits)
  show "((x, y, w, h, isRGB, i + components_of isRGB,
          noise_channels x y w h (channels_of (components_of isRGB)) i buf),
         (x, y, w, h, isRGB, i, buf))
        \<in> measure (\<lambda>(x, y, w, h, isRGB, i, buf). length buf - i)"
    using \<open>i < length buf\<close> by (auto simp add: noise_channels_def len components_of_def)
qed

text \<open>
  The wrapper: the original call fills the buffer or throws; \<open>None\<close> is a \<^verbatim>\<open>pixels\<close>
  argument that is null or has no length. The buffer after the call is returned.
\<close>

definition readPixels_spoofed ::
  "webgl_session \<Rightarrow> gl_constants \<Rightarrow> (rect \<Rightarrow> jsval \<Rightarrow> jsval \<Rightarrow> jserror + int list option)
     \<Rightarrow> int \<Rightarrow> int \<Rightarrow> int \<Rightarrow> int \<Rightarrow> jsval \<Rightarrow> jsval \<Rightarrow> jserror + int list option" where
  "readPixels_spoofed sess gl originalReadPixels x y w h format ty =
     (case originalReadPixels (x, y, w, h) format ty of
        Inl e \<Rightarrow> Inl e
      | Inr None \<Rightarrow> Inr None
      | Inr (Some pixels) \<Rightarrow>
          Inr (Some (if pixels = [] then pixels
                     else readbackLoop x y w h (format = RGB gl) 0 pixels)))"

subsection \<open>The \<^verbatim>\<open>toDataURL\<close> and \<^verbatim>\<open>toBlob\<close> wrappers of a WebGL canvas\<close>

text \<open>
  \<^verbatim>\<open>x = Math.floor((i / 4) % width)\<close>, \<^verbatim>\<open>y = Math.floor((i / 4) / width)\<close> for \<open>i\<close> a multiple
  of 4, printed into the seed \<^verbatim>\<open>`${x},${y},${gl.canvas.id}`\<close>. A width of 0 prints NaN and
  Infinity.
\<close>

definition coord_x :: "nat \<Rightarrow> nat \<Rightarrow> string" where
  "coord_x i w = (if w = 0 then ''NaN'' else show_nat ((i div 4) mod w))"

definition coord_y :: "nat \<Rightarrow> nat \<Rightarrow> string" where
  "coord_y i w =
     (if w = 0 then (if i div 4 = 0 then ''NaN'' else ''Infinity'') else show_nat ((i div 4) div w))"

definition export_hash :: "nat \<Rightarrow> nat \<Rightarrow> jsstring \<Rightarrow> uint32" where
  "export_hash i w canvas_id =
     shift_hash 0 (ascii (coord_x i w @ '','' @ coord_y i w @ '','') @ canvas_id)"

text \<open>
  \<^verbatim>\<open>(hash % 7) - 3\<close>, \<^verbatim>\<open>((hash >> 3) % 7) - 3\<close> and \<^verbatim>\<open>((hash >> 6) % 7) - 3\<close> for the three
  colour channels; \<^verbatim>\<open>>>\<close> keeps the sign.
\<close>

definition export_noise :: "uint32 \<Rightarrow> nat \<Rightarrow> int" where
  "export_noise hsh k = js_rem (sint (signed_drop_bit k hsh)) 7 - 3"

function exportLoop :: "nat \<Rightarrow> jsstring \<Rightarrow> nat \<Rightarrow> int list \<Rightarrow> int list" where
  "exportLoop w canvas_id i buf =
     (if i < length buf then
        (let hsh = export_hash i w canvas_id;
             d1 = add_noise buf i (export_noise hsh 0);
             d2 = add_noise d1 (i + 1) (export_noise hsh 3);
             d3 = add_noise d2 (i + 2) (export_noise hsh 6)
         in exportLoop w canvas_id (i + 4) d3)
      else buf)"
  by pat_completeness auto
termination
  by (relation "measure (\<lambda>(w, canvas_id, i, buf). length buf - i)")
     (auto simp: add_noise_def store_clamped_def split: option.splits)

text \<open>
  The host's part of an export: \<open>snapshot\<close> creates the temporary canvas, draws the
  receiver onto it and reads its pixels back; \<open>encode\<close> puts the pixels back and serialises
  the temporary canvas. \<^verbatim>\<open>this === gl.canvas\<close> compares object identities (\<open>handle\<close>).
\<close>

record webgl_canvas =
  handle :: nat
  surface :: canvas_element

definition toDataURL_spoofed ::
  "webgl_session \<Rightarrow> webgl_canvas \<Rightarrow> (webgl_canvas \<Rightarrow> 'a \<Rightarrow> jserror + string)
     \<Rightarrow> (webgl_canvas \<Rightarrow> jserror + int list)
     \<Rightarrow> (nat \<Rightarrow> nat \<Rightarrow> int list \<Rightarrow> 'a \<Rightarrow> jserror + string)
     \<Rightarrow> webgl_canvas \<Rightarrow> 'a \<Rightarrow> jserror + string" where
  "toDataURL_spoofed sess gl_canvas originalToDataURL snapshot encode this args =
     (case originalToDataURL this args of
        Inl e \<Rightarrow> Inl e
      | Inr dataURL \<Rightarrow>
          if handle this = handle gl_canvas then
            (case snapshot this of
               Inl e \<Rightarrow> Inl e
             | Inr pixels \<Rightarrow>
                 encode (width (surface this)) (height (surface this))
                   (exportLoop (width (surface this)) (element_id (surface gl_canvas)) 0 pixels) args)
          else Inr dataURL)"

definition toBlob_spoofed ::
  "webgl_session \<Rightarrow> webgl_canvas \<Rightarrow> (webgl_canvas \<Rightarrow> 'a \<Rightarrow> jserror + 'b)
     \<Rightarrow> (webgl_canvas \<Rightarrow> jserror + int list)
     \<Rightarrow> (nat \<Rightarrow> nat \<Rightarrow> int list \<Rightarrow> 'a \<Rightarrow> jserror + 'b)
     \<Rightarrow> webgl_canvas \<Rightarrow> 'a \<Rightarrow> jserror + 'b" where
  "toBlob_spoofed sess gl_canvas originalToBlob snapshot encode this args =
     (if handle this = handle gl_canvas then
        (case snapshot this of
           Inl e \<Rightarrow> Inl e
         | Inr pixels \<Rightarrow>
             encode (width (surface this)) (height (surface this))
               (exportLoop (width (surface this)) (element_id (surface gl_canvas)) 0 pixels) args)
      else originalToBlob this args)"

subsection \<open>Which contexts get the wrappers\<close>

text \<open>
  The hooked \<^verbatim>\<open>getContext\<close> returns a context untouched when protection is not enabled or
  the type is not a WebGL one; \<^verbatim>\<open>applyWebGLSpoofing\<close> returns before installing anything
  for a \<^verbatim>\<open>webgl2\<close> context when the active profile does not support WebGL2.
\<close>

definition webgl_context_types :: "string list" where
  "webgl_context_types = [''webgl'', ''experimental-webgl'', ''webgl2'']"

definition applyWebGLSpoofing_installs :: "webgl_session \<Rightarrow> string \<Rightarrow> bool" where
  "applyWebGLSpoofing_installs sess contextType =
     (if contextType = ''webgl2'' \<and> \<not> supportsWebGL2 (activeProfile sess) then False else True)"

definition context_spoofed :: "webgl_session \<Rightarrow> string \<Rightarrow> bool" where
  "context_spoofed sess contextType =
     (if \<not> enabled sess then False
      else if contextType \<in> set webgl_context_types
           then applyWebGLSpoofing_installs sess contextType
           else False)"

text \<open>
  The hook keeps no mark on a context: every call of the hooked \<^verbatim>\<open>getContext\<close> that gets
  the wrappers installed wraps what the context and its canvas hold at that moment, the
  wrappers of the earlier calls included. After \<open>calls\<close> such calls a method is the
  wrapper applied \<open>calls\<close> times to the host's own method.
\<close>

fun readPixels_stacked ::
  "webgl_session \<Rightarrow> gl_constants \<Rightarrow> (rect \<Rightarrow> jsval \<Rightarrow> jsval \<Rightarrow> jserror + int list option)
     \<Rightarrow> nat \<Rightarrow> rect \<Rightarrow> jsval \<Rightarrow> jsval \<Rightarrow> jserror + int list option" where
  "readPixels_stacked sess gl originalReadPixels 0 = originalReadPixels"
| "readPixels_stacked sess gl originalReadPixels (Suc n) =
     (\<lambda>r format ty.
        readPixels_spoofed sess gl (readPixels_stacked sess gl originalReadPixels n)
          (fst r) (fst (snd r)) (fst (snd (snd r))) (snd (snd (snd r))) format ty)"

fun toDataURL_stacked ::
  "webgl_session \<Rightarrow> webgl_canvas \<Rightarrow> (webgl_canvas \<Rightarrow> 'a \<Rightarrow> jserror + string)
     \<Rightarrow> (webgl_canvas \<Rightarrow> jserror + int list)
     \<Rightarrow> (nat \<Rightarrow> nat \<Rightarrow> int list \<Rightarrow> 'a \<Rightarrow> jserror + string)
     \<Rightarrow> nat \<Rightarrow> webgl_canvas \<Rightarrow> 'a \<Rightarrow> jserror + string" where
  "toDataURL_stacked sess gl_canvas originalToDataURL snapshot encode 0 = originalToDataURL"
| "toDataURL_stacked sess gl_canvas originalToDataURL snapshot encode (Suc n) =
     toDataURL_spoofed sess gl_canvas
       (toDataURL_stacked sess gl_canvas originalToDataURL snapshot encode n) snapshot encode"

fun toBlob_stacked ::
  "webgl_session \<Rightarrow> webgl_canvas \<Rightarrow> (webgl_canvas \<Rightarrow> 'a \<Rightarrow> jserror + 'b)
     \<Rightarrow> (webgl_canvas \<Rightarrow> jserror + int list)
     \<Rightarrow> (nat \<Rightarrow> nat \<Rightarrow> int list \<Rightarrow> 'a \<Rightarrow> jserror + 'b)
     \<Rightarrow> nat \<Rightarrow> webgl_canvas \<Rightarrow> 'a \<Rightarrow> jserror + 'b" where
  "toBlob_stacked sess gl_canvas originalToBlob snapshot encode 0 = originalToBlob"
| "toBlob_stacked sess gl_canvas originalToBlob snapshot encode (Suc n) =
     toBlob_spoofed sess gl_canvas
       (toBlob_stacked sess gl_canvas originalToBlob snapshot encode n) snapshot encode"

text \<open>
  What a page calls on a context, or on the canvas of a context, after it has called the
  hooked \<^verbatim>\<open>getContext\<close> on that canvas \<open>calls\<close> times with the given type (once at least, to
  hold the context): the stacked wrappers where they were installed, the host's own method
  otherwise.
\<close>

definition context_readPixels ::
  "webgl_session \<Rightarrow> string \<Rightarrow> nat \<Rightarrow> gl_constants
     \<Rightarrow> (rect \<Rightarrow> jsval \<Rightarrow> jsval \<Rightarrow> jserror + int list option)
     \<Rightarrow> int \<Rightarrow> int \<Rightarrow> int \<Rightarrow> int \<Rightarrow> jsval \<Rightarrow> jsval \<Rightarrow> jserror + int list option" where
  "context_readPixels sess contextType calls gl originalReadPixels x y w h format ty =
     (if context_spoofed sess contextType
      then readPixels_stacked sess gl originalReadPixels calls (x, y, w, h) format ty
      else originalReadPixels (x, y, w, h) format ty)"

definition context_toDataURL ::
  "webgl_session \<Rightarrow> string \<Rightarrow> nat \<Rightarrow> webgl_canvas
     \<Rightarrow> (webgl_canvas \<Rightarrow> 'a \<Rightarrow> jserror + string)
     \<Rightarrow> (webgl_canvas \<Rightarrow> jserror + int list)
     \<Rightarrow> (nat \<Rightarrow> nat \<Rightarrow> int list \<Rightarrow> 'a \<Rightarrow> jserror + string)
     \<Rightarrow> webgl_canvas \<Rightarrow> 'a \<Rightarrow> jserror + string" where
  "context_toDataURL sess contextType calls gl_canvas originalToDataURL snapshot encode this args =
     (if context_spoofed sess contextType
      then toDataURL_stacked sess gl_canvas originalToDataURL snapshot encode calls this args
      else originalToDataURL this args)"

definition context_toBlob ::
  "webgl_session \<Rightarrow> string \<Rightarrow> nat \<Rightarrow> webgl_canvas
     \<Rightarrow> (webgl_canvas \<Rightarrow> 'a \<Rightarrow> jserror + 'b)
     \<Rightarrow> (webgl_canvas \<Rightarrow> jserror + int list)
     \<Rightarrow> (nat \<Rightarrow> nat \<Rightarrow> int list \<Rightarrow> 'a \<Rightarrow> jserror + 'b)
     \<Rightarrow> webgl_canvas \<Rightarrow> 'a \<Rightarrow> jserror + 'b" where
  "context_toBlob sess contextType calls gl_canvas originalToBlob snapshot encode this args =
     (if context_spoofed sess contextType
      then toBlob_stacked sess gl_canvas originalToBlob snapshot encode calls this args
      else originalToBlob this args)"

section \<open>Test data and predicates used in the statements\<close>

text \<open>Every element of a buffer is a byte value.\<close>

definition byte_range :: "int list \<Rightarrow> bool" where
  "byte_range buf = (\<forall>b\<in>set buf. 0 \<le> b \<and> b \<le> 255)"

text \<open>The pixel data of a 4 by 4 fully opaque red surface.\<close>

definition red_surface :: "int list" where
  "red_surface = concat (replicate 16 [255, 0, 0, 255])"

section \<open>Linear maps on 32-bit words, for the period of the generator\<close>

text \<open>
  A map that commutes with XOR is given by its values on the 32 unit words. \<open>mat_apply\<close>
  applies such a table of columns, the first column standing for bit \<open>n\<close>. \<open>drift\<close> is the
  XOR of the first draw of an export with the first draw of the next export, six steps
  and one step from the same state; \<open>drift_inverse_columns\<close> is the table of its inverse.
\<close>

fun mat_apply :: "uint32 list \<Rightarrow> nat \<Rightarrow> uint32 \<Rightarrow> uint32" where
  "mat_apply [] n x = 0"
| "mat_apply (c # cs) n x = (if bit x n then c else 0) XOR mat_apply cs (Suc n) x"

definition unit_columns :: "uint32 list" where
  "unit_columns = map (\<lambda>i. 2 ^ i) [0..<32]"

definition drift :: "uint32 \<Rightarrow> uint32" where
  "drift x = xorshift32 (xorshift32 (xorshift32 (xorshift32 (xorshift32 (xorshift32 x))))) XOR xorshift32 x"

definition drift_inverse_columns :: "uint32 list" where
  "drift_inverse_columns = [373257741, 1488252438, 1829097919, 1862471506, 3012238551, 3124992465, 2921535791, 634097708, 3129542043, 1460013002, 3602382858, 2875939264, 222733190, 1063829762, 3174213878, 3029884155, 3822224262, 1722070441, 1950337772, 538609346, 3442410382, 3851994537, 4235611735, 135386307, 4844946, 2652993606, 1502290539, 312996389, 1860536651, 2856911031, 2413119053, 917651679]"

text \<open>The loop equations are unfolded by name only.\<close>

declare noiseLoop.simps [simp del]
declare readbackLoop.simps [simp del]
declare exportLoop.simps [simp del]
declare show_nat.simps [simp del]

section \<open>Properties of the generator\<close>

lemma createPRNG_truthy:
  "truthy seed \<Longrightarrow> createPRNG now seed = (if ToUint32 seed = 0 then 1 else ToUint32 seed)"
  by (cases seed) (simp_all add: createPRNG_def)

lemma createPRNG_falsy:
  "\<not> truthy seed \<Longrightarrow>
   createPRNG now seed = (if (word_of_int now :: uint32) = 0 then 1 else word_of_int now)"
  by (simp add: createPRNG_def)

lemma createPRNG_nonzero: "createPRNG now seed \<noteq> 0"
  by (simp add: createPRNG_def Let_def)

lemma fst_randomInt: "fst (randomInt st mn mx) = xorshift32 st"
  by (simp add: randomInt_def Let_def)

subsection \<open>Rounding to a double\<close>

lemma round_half_even_of_int: "round_half_even (of_int z) = z"
  by (simp add: round_half_even_def)

lemma power_int_diff_nat: "(2::rat) powi (int m - int n) = 2 ^ m / 2 ^ n"
  by (simp add: power_int_diff)

lemma binade_lower:
  assumes "q \<noteq> 0"
  shows "2 powi binade q \<le> \<bar>q\<bar>"
proof -
  obtain a b where ab: "quotient_of \<bar>q\<bar> = (a, b)" by (cases "quotient_of \<bar>q\<bar>")
  have b: "0 < b" using ab quotient_of_denom_pos by blast
  have q: "\<bar>q\<bar> = of_int a / of_int b" using ab quotient_of_div by blast
  have a: "0 < a"
  proof -
    have "0 < \<bar>q\<bar>" using assms by simp
    then show ?thesis using q b by (simp add: zero_less_divide_iff)
  qed
  let ?c = "bitlen a - bitlen b"
  have la: "2 ^ nat (bitlen a - 1) \<le> a" using bitlen_bounds[OF a] by simp
  have lb: "b < 2 ^ nat (bitlen b)" using bitlen_bounds[OF b] by simp
  have pa: "1 \<le> bitlen a" using a by (auto simp: bitlen_alt_def)
  have pb: "1 \<le> bitlen b" using b by (auto simp: bitlen_alt_def)
  obtain m where m: "bitlen a - 1 = int m" using pa by (metis diff_ge_0_iff_ge nonneg_int_cases)
  obtain n where n: "bitlen b = int n" using pb by (metis bitlen_nonneg nonneg_int_cases)
  have mn: "nat (bitlen a - 1) = m" "nat (bitlen b) = n" using m n by simp_all
  have "?c - 1 = int m - int n" using m n by simp
  then have "(2::rat) powi (?c - 1) = 2 powi (int m - int n)" by (rule arg_cong)
  also have "\<dots> = 2 ^ nat (bitlen a - 1) / 2 ^ nat (bitlen b)"
    by (simp only: power_int_diff_nat mn)
  also have "\<dots> \<le> of_int a / 2 ^ nat (bitlen b)"
  proof -
    have "(of_int (2 ^ nat (bitlen a - 1)) :: rat) \<le> of_int a" using la by (simp only: of_int_le_iff)
    then show ?thesis by (simp add: divide_right_mono)
  qed
  also have "\<dots> \<le> of_int a / of_int b"
  proof -
    have "(of_int b :: rat) \<le> of_int (2 ^ nat (bitlen b))" using lb by (simp only: of_int_le_iff)
    then show ?thesis using a b by (simp add: frac_le)
  qed
  finally have low: "(2::rat) powi (?c - 1) \<le> \<bar>q\<bar>" using q by simp
  show ?thesis
    using low ab by (simp add: binade_def Let_def)
qed

text \<open>A fraction \<open>k / 2^j\<close> with \<open>\<bar>k\<bar> < 2^53\<close> is a double: rounding leaves it as it is.\<close>

lemma to_double_exact:
  assumes "\<bar>k\<bar> < 2 ^ 53"
  shows "to_double (of_int k / 2 ^ j) = of_int k / 2 ^ j"
proof (cases "k = 0")
  case True
  then show ?thesis by (simp add: to_double_def)
next
  case False
  let ?q = "of_int k / 2 ^ j :: rat"
  have q0: "?q \<noteq> 0" using False by simp
  have "\<bar>?q\<bar> = of_int \<bar>k\<bar> / 2 ^ j" by (simp add: abs_divide)
  also have "\<dots> < 2 ^ 53 / 2 ^ j"
  proof -
    have "(of_int \<bar>k\<bar> :: rat) < of_int (2 ^ 53)" using assms by (simp only: of_int_less_iff)
    then show ?thesis by (simp add: divide_strict_right_mono)
  qed
  also have "\<dots> = 2 powi (53 - int j)" by (simp add: power_int_diff)
  finally have up: "\<bar>?q\<bar> < 2 powi (53 - int j)" .
  have "(2::rat) powi binade ?q < 2 powi (53 - int j)"
    using binade_lower[OF q0] up by simp
  then have e: "binade ?q < 53 - int j"
  proof (rule contrapos_pp)
    assume "\<not> binade ?q < 53 - int j"
    then have "53 - int j \<le> binade ?q" by simp
    then have "(2::rat) powi (53 - int j) \<le> 2 powi binade ?q" by (intro power_int_increasing) auto
    then show "\<not> (2::rat) powi binade ?q < 2 powi (53 - int j)" by simp
  qed
  define d where "d = nat (52 - binade ?q - int j)"
  have d: "int d = 52 - binade ?q - int j" using e by (simp add: d_def)
  have ulp: "(2::rat) powi (binade ?q - 52) = 1 / (2 ^ d * 2 ^ j)"
  proof -
    have "binade ?q - 52 = - int (d + j)" using d by simp
    then have "(2::rat) powi (binade ?q - 52) = 2 powi (- int (d + j))" by (rule arg_cong)
    also have "\<dots> = 1 / (2 ^ d * 2 ^ j)"
      by (simp only: power_int_minus power_int_of_nat power_add inverse_eq_divide)
    finally show ?thesis .
  qed
  have "?q / 2 powi (binade ?q - 52) = of_int (k * 2 ^ d)"
    by (simp add: ulp)
  then have r: "round_half_even (?q / 2 powi (binade ?q - 52)) = k * 2 ^ d"
    by (simp only: round_half_even_of_int)
  have "to_double ?q =
          of_int (round_half_even (?q / 2 powi (binade ?q - 52))) * 2 powi (binade ?q - 52)"
    using q0 by (simp only: to_double_def Let_def if_False)
  also have "\<dots> = of_int (k * 2 ^ d) * 2 powi (binade ?q - 52)" by (simp only: r)
  also have "\<dots> = ?q" by (simp add: ulp)
  finally show ?thesis .
qed

lemma to_double_of_int: "\<bar>k\<bar> < 2 ^ 53 \<Longrightarrow> to_double (of_int k) = of_int k"
  using to_double_exact[of k 0] by simp

text \<open>
  On integral bounds below \<open>2^19\<close> in size no operation rounds, and the draw is integer
  arithmetic on the 32-bit output.
\<close>

lemma randomInt_int:
  assumes "\<bar>mn\<bar> < 2 ^ 19" and "\<bar>mx\<bar> < 2 ^ 19"
  shows "randomInt st (of_int mn) (of_int mx) =
           (xorshift32 st, uint (xorshift32 st) * (mx - mn + 1) div 4294967296 + mn)"
proof -
  define a where "a = uint (xorshift32 st)"
  define n where "n = mx - mn + 1"
  have a: "0 \<le> a" "a < 2 ^ 32"
    using uint_lt2p[of "xorshift32 st"] by (simp_all add: a_def)
  have n: "\<bar>n\<bar> \<le> 2 ^ 20" using assms by (simp add: n_def)
  have "\<bar>a * n\<bar> = a * \<bar>n\<bar>" using a by (simp add: abs_mult)
  also have "\<dots> \<le> 2 ^ 32 * 2 ^ 20" using a n by (intro mult_mono) simp_all
  finally have an: "\<bar>a * n\<bar> \<le> 2 ^ 52" by simp
  have d1: "to_double (of_int mx - of_int mn) = of_int (mx - mn)"
    using to_double_of_int[of "mx - mn"] assms by simp
  have d2: "to_double (of_int (mx - mn) + 1) = of_int n"
    using to_double_of_int[of n] n by (simp add: n_def)
  have d3: "to_double (of_int a / 4294967296 * of_int n) = of_int (a * n) / of_int 4294967296"
    using to_double_exact[of "a * n" 32] an by simp
  have fl: "\<lfloor>of_int (a * n) / of_int 4294967296 :: rat\<rfloor> = a * n div 4294967296"
    by (rule floor_divide_of_int_eq)
  have q: "\<bar>a * n div 4294967296\<bar> \<le> 2 ^ 20"
  proof -
    have "- (2 ^ 52) \<le> a * n" "a * n \<le> 2 ^ 52" using an by simp_all
    then have "- (2 ^ 52) div 4294967296 \<le> a * n div 4294967296"
      "a * n div 4294967296 \<le> 2 ^ 52 div (4294967296 :: int)"
      by (simp_all add: zdiv_mono1)
    then show ?thesis by simp
  qed
  have d4: "to_double (of_int (a * n div 4294967296) + of_int mn) =
            of_int (a * n div 4294967296 + mn)"
    using to_double_of_int[of "a * n div 4294967296 + mn"] q assms by simp
  show ?thesis
    unfolding randomInt_def Let_def floor_of_int ceiling_of_int d1 d2 a_def[symmetric] d3 fl d4
    by (simp add: n_def)
qed

text \<open>
  On a wide range the product is rounded: the exact product has the integer part
  3269806983176304.
\<close>

lemma randomInt_rounds: "randomInt 4047793131 0 3333306257851184 = (4213148439, 3269806983176305)"
  by code_simp

text \<open>The FNV-1a constants: \<^verbatim>\<open>hash("test")\<close>.\<close>

lemma hash_test: "hash (ascii ''test'') = 2949673445"
  by (simp add: hash_def ascii_def)

section \<open>Properties of the buffers\<close>

lemma byte_range_update: "byte_range buf \<Longrightarrow> 0 \<le> v \<Longrightarrow> v \<le> 255 \<Longrightarrow> byte_range (buf[k := v])"
  unfolding byte_range_def using set_update_subset_insert[of buf k v] by auto

lemma byte_range_store: "byte_range buf \<Longrightarrow> byte_range (store_clamped buf k v)"
  by (simp add: store_clamped_def clamp8_def byte_range_update)

lemma byte_range_add: "byte_range buf \<Longrightarrow> byte_range (add_noise buf k v)"
  by (simp add: add_noise_def byte_range_store split: option.splits)

lemma length_add_noise: "length (add_noise buf k v) = length buf"
  by (simp add: add_noise_def store_clamped_def element_def)

lemma nth_add_noise_same:
  "k < length buf \<Longrightarrow> add_noise buf k v ! k = clamp8 (max 0 (min 255 (buf ! k + v)))"
  by (simp add: add_noise_def store_clamped_def element_def)

lemma nth_add_noise_other: "j \<noteq> k \<Longrightarrow> add_noise buf k v ! j = buf ! j"
  by (simp add: add_noise_def store_clamped_def element_def)

lemma nth_store_clamped_other: "j \<noteq> k \<Longrightarrow> store_clamped buf k v ! j = buf ! j"
  by (simp add: store_clamped_def)

subsection \<open>The read-back loop of the 2D module\<close>

lemma byte_range_noisePixel: "byte_range buf \<Longrightarrow> byte_range (snd (noisePixel st pr ar i buf))"
  by (simp add: noisePixel_def Let_def byte_range_add byte_range_store split: prod.splits)

lemma byte_range_noiseLoop: "byte_range buf \<Longrightarrow> byte_range (noiseLoop st pr ar i buf)"
proof (induction st pr ar i buf rule: noiseLoop.induct)
  case (1 st pr ar i buf)
  show ?case
  proof (cases "i < length buf")
    case False
    then show ?thesis using "1.prems" by (simp add: noiseLoop.simps[of st pr ar i buf])
  next
    case True
    obtain s d where sd: "noisePixel st pr ar i buf = (s, d)" by fastforce
    have "byte_range d" using byte_range_noisePixel[OF "1.prems", of st pr ar i] sd by simp
    then have "byte_range (noiseLoop s pr ar (i + 4) d)"
      using "1.IH"[OF True sd[symmetric]] by simp
    then show ?thesis using True sd by (simp add: noiseLoop.simps[of st pr ar i buf])
  qed
qed

text \<open>A pass at index \<open>i\<close> leaves every element below \<open>i\<close> as it was, and so does the loop.\<close>

lemma nth_noisePixel: "k < i \<Longrightarrow> snd (noisePixel st pr ar i buf) ! k = buf ! k"
  by (simp add: noisePixel_def Let_def nth_add_noise_other nth_store_clamped_other
        split: prod.splits)

lemma nth_noiseLoop: "k < i \<Longrightarrow> noiseLoop st pr ar i buf ! k = buf ! k"
proof (induction st pr ar i buf rule: noiseLoop.induct)
  case (1 st pr ar i buf)
  show ?case
  proof (cases "i < length buf")
    case False
    then show ?thesis by (simp add: noiseLoop.simps[of st pr ar i buf])
  next
    case True
    obtain s d where sd: "noisePixel st pr ar i buf = (s, d)" by fastforce
    have "noiseLoop s pr ar (i + 4) d ! k = d ! k"
      using "1.IH"[OF True sd[symmetric]] "1.prems" by simp
    moreover have "d ! k = buf ! k"
      using nth_noisePixel[OF "1.prems", of st pr ar buf] sd by simp
    ultimately show ?thesis using True sd by (simp add: noiseLoop.simps[of st pr ar i buf])
  qed
qed

lemma first_pixel:
  assumes "0 < length buf" "k < 4"
  shows "noiseLoop st pr ar 0 buf ! k = snd (noisePixel st pr ar 0 buf) ! k"
proof -
  obtain s d where sd: "noisePixel st pr ar 0 buf = (s, d)" by fastforce
  have "noiseLoop st pr ar 0 buf = noiseLoop s pr ar 4 d"
    using assms sd by (simp add: noiseLoop.simps[of st pr ar 0 buf])
  then show ?thesis using nth_noiseLoop[of k 4 s pr ar d] assms sd by simp
qed

text \<open>The blue byte of the first pixel is decided by the third draw.\<close>

lemma noisePixel_blue:
  assumes "2 < length buf"
  shows "snd (noisePixel st pr ar 0 buf) ! 2 =
         clamp8 (max 0 (min 255 (buf ! 2 +
           snd (randomInt (xorshift32 (xorshift32 st)) (of_int (- pr)) (of_int pr)))))"
proof -
  obtain s1 rn where r1: "randomInt st (of_int (- pr)) (of_int pr) = (s1, rn)" by fastforce
  obtain s2 gn where r2: "randomInt s1 (of_int (- pr)) (of_int pr) = (s2, gn)" by fastforce
  obtain s3 bn where r3: "randomInt s2 (of_int (- pr)) (of_int pr) = (s3, bn)" by fastforce
  have s1: "s1 = xorshift32 st" using fst_randomInt[of st "of_int (- pr)" "of_int pr"] r1 by simp
  have s2: "s2 = xorshift32 s1" using fst_randomInt[of s1 "of_int (- pr)" "of_int pr"] r2 by simp
  define d2 where "d2 = add_noise (add_noise buf 0 rn) 1 gn"
  define d3 where "d3 = add_noise d2 2 bn"
  have l2: "length d2 = length buf" by (simp add: d2_def length_add_noise)
  have n2: "d2 ! 2 = buf ! 2" by (simp add: d2_def nth_add_noise_other)
  have d3: "d3 ! 2 = clamp8 (max 0 (min 255 (buf ! 2 + bn)))"
    using assms l2 n2 nth_add_noise_same[of 2 d2 bn] by (simp add: d3_def)
  have "snd (noisePixel st pr ar 0 buf) ! 2 = d3 ! 2"
    using r1 r2 r3
    by (simp add: noisePixel_def Let_def d3_def d2_def nth_store_clamped_other eval_nat_numeral
          split: prod.splits)
  then show ?thesis using d3 r3 s1 s2 by simp
qed

subsection \<open>The loops of the WebGL module\<close>

lemma byte_range_channels: "byte_range buf \<Longrightarrow> byte_range (noise_channels x y w h c i buf)"
proof -
  have "byte_range b0 \<Longrightarrow>
        byte_range (foldl (\<lambda>b j. case element b (i + j) of
                     None \<Rightarrow> b
                   | Some v \<Rightarrow> b[i + j := max 0 (min 255 (v + pixelNoise x y w h (i + j)))]) b0 js)"
    for b0 js
    by (induction js arbitrary: b0) (auto simp: byte_range_update split: option.splits)
  then show "byte_range buf \<Longrightarrow> byte_range (noise_channels x y w h c i buf)"
    by (simp add: noise_channels_def)
qed

lemma byte_range_readbackLoop: "byte_range buf \<Longrightarrow> byte_range (readbackLoop x y w h isRGB i buf)"
proof (induction x y w h isRGB i buf rule: readbackLoop.induct)
  case (1 x y w h isRGB i buf)
  show ?case
  proof (cases "i < length buf")
    case False
    then show ?thesis using "1.prems" by (simp add: readbackLoop.simps[of x y w h isRGB i buf])
  next
    case True
    then show ?thesis
      using "1.IH"[OF True] "1.prems"
      by (simp add: byte_range_channels readbackLoop.simps[of x y w h isRGB i buf])
  qed
qed

lemma byte_range_exportLoop: "byte_range buf \<Longrightarrow> byte_range (exportLoop w cid i buf)"
proof (induction w cid i buf rule: exportLoop.induct)
  case (1 w cid i buf)
  show ?case
  proof (cases "i < length buf")
    case False
    then show ?thesis using "1.prems" by (simp add: exportLoop.simps[of w cid i buf])
  next
    case True
    then show ?thesis
      using "1.IH"[OF True refl refl refl refl] "1.prems"
      by (simp add: byte_range_add Let_def exportLoop.simps[of w cid i buf])
  qed
qed

text \<open>In a four-component read-back every fourth byte, the alpha byte, keeps its value.\<close>

lemma nth_noise_channels_other:
  assumes "k < i \<or> i + c \<le> k"
  shows "noise_channels x y w h c i buf ! k = buf ! k"
proof -
  have "\<forall>j\<in>set js. i + j \<noteq> k \<Longrightarrow>
        foldl (\<lambda>b j. case element b (i + j) of
                     None \<Rightarrow> b
                   | Some v \<Rightarrow> b[i + j := max 0 (min 255 (v + pixelNoise x y w h (i + j)))]) b0 js ! k
        = b0 ! k" for b0 js
    by (induction js arbitrary: b0) (auto split: option.splits)
  moreover have "\<forall>j\<in>set [0..<c]. i + j \<noteq> k" using assms by auto
  ultimately show ?thesis by (simp add: noise_channels_def)
qed

lemma readbackLoop_alpha_untouched:
  "i mod 4 = 0 \<Longrightarrow> k mod 4 = 3 \<Longrightarrow> readbackLoop x y w h False i buf ! k = buf ! k"
proof (induction x y w h "False" i buf rule: readbackLoop.induct)
  case (1 x y w h i buf)
  show ?case
  proof (cases "i < length buf")
    case False
    then show ?thesis by (simp add: readbackLoop.simps[of x y w h False i buf])
  next
    case True
    have step: "(i + components_of False) mod 4 = 0"
      using "1.prems"(1) by (simp add: components_of_def)
    have away: "k < i \<or> i + channels_of (components_of False) \<le> k"
      using "1.prems" by (simp add: components_of_def channels_of_def) presburger
    have "readbackLoop x y w h False i buf ! k =
          readbackLoop x y w h False (i + components_of False)
            (noise_channels x y w h (channels_of (components_of False)) i buf) ! k"
      using True by (simp add: readbackLoop.simps[of x y w h False i buf])
    also have "\<dots> = noise_channels x y w h (channels_of (components_of False)) i buf ! k"
      using "1.hyps"[OF True step "1.prems"(2)] .
    also have "\<dots> = buf ! k" using nth_noise_channels_other[OF away] .
    finally show ?thesis .
  qed
qed

text \<open>Every profile of the catalogue supports WebGL2.\<close>

lemma catalogue_supports_WebGL2: "p \<in> set profiles \<Longrightarrow> supportsWebGL2 p"
  by (auto simp: profiles_def nvidia_rtx_3080_def amd_radeon_rx_6800_def)

lemma context_spoofed_catalogue:
  "activeProfile sess1 \<in> set profiles \<Longrightarrow> activeProfile sess2 \<in> set profiles \<Longrightarrow>
   enabled sess1 = enabled sess2 \<Longrightarrow>
   context_spoofed sess1 contextType = context_spoofed sess2 contextType"
  by (simp add: context_spoofed_def applyWebGLSpoofing_installs_def catalogue_supports_WebGL2)

text \<open>What \<^verbatim>\<open>(hash % 7) - 3\<close> can be: the remainder has the sign of the hash.\<close>

lemma js_rem_7_range: "- 6 \<le> js_rem a 7 \<and> js_rem a 7 \<le> 6"
proof -
  have "0 \<le> \<bar>a\<bar> mod 7" "\<bar>a\<bar> mod 7 < 7" by simp_all
  then show ?thesis by (cases "a < 0") (auto simp: js_rem_def sgn_if)
qed

lemma pixelNoise_range: "- 9 \<le> pixelNoise x y w h k \<and> pixelNoise x y w h k \<le> 3"
  using js_rem_7_range[of "sint (shift_hash 0 (ascii (show_int x @ '','' @ show_int y @ '','' @
      show_int w @ '','' @ show_int h @ '','' @ show_nat k)))"]
  by (simp add: pixelNoise_def)

section \<open>The generator never repeats a draw five steps later\<close>

lemma mat_apply_xor: "mat_apply cs n (x XOR y) = mat_apply cs n x XOR mat_apply cs n y"
  by (induction cs arbitrary: n) (simp_all add: bit_xor_iff ac_simps)

lemma mat_apply_zero: "mat_apply cs n 0 = 0"
  by (induction cs arbitrary: n) simp_all

lemma linear_mat_apply:
  assumes "\<And>a b. f (a XOR b) = f a XOR f b" and "f 0 = 0"
  shows "f (mat_apply cs n x) = mat_apply (map f cs) n x"
  by (induction cs arbitrary: n) (simp_all add: assms)

lemma bit_mat_apply_units:
  "n \<le> 32 \<Longrightarrow> bit (mat_apply (map (\<lambda>i. 2 ^ i) [n..<32]) n x) m \<longleftrightarrow> n \<le> m \<and> bit x m"
proof (induction "32 - n" arbitrary: n)
  case 0
  then show ?case using bit_imp_le_length[of x m] by auto
next
  case (Suc k)
  then have lt: "n < 32" by simp
  have up: "[n..<32] = n # [Suc n..<32]" using lt by (simp add: upt_conv_Cons)
  have ih: "bit (mat_apply (map (\<lambda>i. 2 ^ i) [Suc n..<32]) (Suc n) x) m \<longleftrightarrow> Suc n \<le> m \<and> bit x m"
    using Suc.hyps(1)[of "Suc n"] Suc.hyps(2) lt by simp
  show ?case
  proof (cases "m = n")
    case True
    have "\<not> bit (mat_apply (map (\<lambda>i. 2 ^ i) [Suc n..<32]) (Suc n) x) m"
      using ih True by simp
    then show ?thesis using True lt by (simp add: up bit_xor_iff bit_exp_iff)
  next
    case False
    then show ?thesis using lt ih by (auto simp: up bit_xor_iff bit_exp_iff)
  qed
qed

lemma mat_apply_units: "mat_apply unit_columns 0 x = x"
  by (rule bit_word_eqI) (simp add: unit_columns_def bit_mat_apply_units)

lemma xorshift32_xor: "xorshift32 (x XOR y) = xorshift32 x XOR xorshift32 y"
  by (simp add: xorshift32_def Let_def ac_simps)

lemma xorshift32_zero: "xorshift32 0 = 0"
  by (simp add: xorshift32_def)

lemma drift_xor: "drift (x XOR y) = drift x XOR drift y"
  by (simp add: drift_def xorshift32_xor ac_simps)

lemma drift_zero: "drift 0 = 0"
  by (simp add: drift_def xorshift32_zero)

lemma unit_columns_eval: "unit_columns = [1, 2, 4, 8, 16, 32, 64, 128, 256, 512, 1024, 2048, 4096, 8192, 16384, 32768, 65536, 131072, 262144, 524288, 1048576, 2097152, 4194304, 8388608, 16777216, 33554432, 67108864, 134217728, 268435456, 536870912, 1073741824, 2147483648]"
  by (simp add: unit_columns_def upt_rec)

lemma drift_columns_eval: "map drift [1, 2, 4, 8, 16, 32, 64, 128, 256, 512, 1024, 2048, 4096, 8192, 16384, 32768, 65536, 131072, 262144, 524288, 1048576, 2097152, 4194304, 8388608, 16777216, 33554432, 67108864, 134217728, 268435456, 536870912, 1073741824, 2147483648] = [745241585, 819475297, 1637934819, 1510012676, 1776683829, 1067391227, 2128826624, 4023888681, 3958504617, 993055649, 1477520589, 3202498709, 3495638352, 4111780979, 973837552, 3980825378, 580957388, 3618254688, 3344603746, 2483419594, 2983882005, 1270563989, 773293355, 2725055982, 1457230548, 1933947057, 1601882400, 1098544431, 463818941, 3723894457, 42807667, 2479228318]"
  by (simp add: drift_def xorshift32_def Let_def)

lemma certificate: "map (mat_apply drift_inverse_columns 0) (map drift unit_columns) = unit_columns"
  unfolding unit_columns_eval drift_columns_eval
  by (simp add: drift_inverse_columns_def)

lemma drift_inverse: "mat_apply drift_inverse_columns 0 (drift x) = x"
proof -
  have "drift x = drift (mat_apply unit_columns 0 x)" by (simp add: mat_apply_units)
  also have "\<dots> = mat_apply (map drift unit_columns) 0 x"
    by (rule linear_mat_apply) (rule drift_xor, rule drift_zero)
  finally have "mat_apply drift_inverse_columns 0 (drift x) =
        mat_apply drift_inverse_columns 0 (mat_apply (map drift unit_columns) 0 x)" by simp
  also have "\<dots> = mat_apply (map (mat_apply drift_inverse_columns 0) (map drift unit_columns)) 0 x"
    by (rule linear_mat_apply) (rule mat_apply_xor, rule mat_apply_zero)
  also have "\<dots> = x" by (simp only: certificate mat_apply_units)
  finally show ?thesis .
qed

lemma drift_nonzero: "x \<noteq> 0 \<Longrightarrow> drift x \<noteq> 0"
  using drift_inverse[of x] mat_apply_zero[of drift_inverse_columns 0] by auto

lemma xorshift32_nonzero: "x \<noteq> 0 \<Longrightarrow> xorshift32 x \<noteq> 0"
proof
  assume "x \<noteq> 0" and z: "xorshift32 x = 0"
  have "drift x = 0" by (simp add: drift_def z xorshift32_zero)
  then show False using drift_nonzero[OF \<open>x \<noteq> 0\<close>] by simp
qed

lemma sixth_draw_differs:
  assumes "x \<noteq> 0"
  shows "xorshift32 (xorshift32 (xorshift32 (xorshift32 (xorshift32 (xorshift32 x))))) \<noteq> xorshift32 x"
proof
  assume "xorshift32 (xorshift32 (xorshift32 (xorshift32 (xorshift32 (xorshift32 x))))) = xorshift32 x"
  then have "drift x = 0" by (simp add: drift_def)
  then show False using drift_nonzero[OF assms] by simp
qed

subsection \<open>Two successive exports are drawn through different transforms\<close>

lemma fst_randomRange: "fst (randomRange p mn mx) = xorshift32 p"
  by (simp add: randomRange_def Let_def)

lemma fst_applyCanvasTransform:
  "fst (applyCanvasTransform p) = xorshift32 (xorshift32 (xorshift32 (xorshift32 (xorshift32 p))))"
  by (simp add: applyCanvasTransform_def randomRange_def Let_def split: prod.splits)

lemma scaleX_applyCanvasTransform:
  "scaleX (snd (applyCanvasTransform p)) =
     1 + (- (2 / 1000) + of_int (uint (xorshift32 p)) / 4294967296 * (2 / 1000 - - (2 / 1000)))"
  by (simp add: applyCanvasTransform_def randomRange_def Let_def split: prod.splits)

lemma export_transform_drifts:
  assumes "p \<noteq> 0"
  shows "scaleX (snd (applyCanvasTransform (fst (applyCanvasTransform p)))) \<noteq>
         scaleX (snd (applyCanvasTransform p))"
proof -
  let ?a = "xorshift32 (xorshift32 (xorshift32 (xorshift32 (xorshift32 (xorshift32 p)))))"
  let ?b = "xorshift32 p"
  have "?a \<noteq> ?b" using sixth_draw_differs[OF assms] .
  then have ne: "uint ?a \<noteq> uint ?b" by (simp add: word_uint_eq_iff)
  have inj: "1 + (- (2 / 1000) + of_int i / 4294967296 * (2 / 1000 - - (2 / 1000))) \<noteq>
             (1 + (- (2 / 1000) + of_int j / 4294967296 * (2 / 1000 - - (2 / 1000))) :: rat)"
    if "i \<noteq> j" for i j :: int
    using that by simp
  show ?thesis
    unfolding scaleX_applyCanvasTransform fst_applyCanvasTransform by (rule inj[OF ne])
qed

text \<open>
  After \<^verbatim>\<open>init\<close> the session generator is not 0, and an export leaves it so: the transform
  that the host renders the second of two successive exports through has another
  horizontal scale than the first.
\<close>

lemma successive_exports_use_different_transforms:
  assumes "prng m = Some p" and "p \<noteq> 0" and "prepare cv = None"
  shows "snd (spoofToDataURL m prepare render cv a) = render (snd (applyCanvasTransform p)) cv a \<and>
         snd (spoofToDataURL (fst (spoofToDataURL m prepare render cv a)) prepare render cv a) =
           render (snd (applyCanvasTransform (fst (applyCanvasTransform p)))) cv a \<and>
         scaleX (snd (applyCanvasTransform (fst (applyCanvasTransform p)))) \<noteq>
           scaleX (snd (applyCanvasTransform p))"
  using assms export_transform_drifts[OF assms(2)]
  by (simp add: spoofToDataURL_def split: prod.splits)

section \<open>Evaluations at concrete inputs\<close>

text \<open>
  The red surface: its length and the two bytes the statements read, its fingerprint hash,
  and the blue byte of its first pixel after the read-back loop for two generator states.
\<close>

lemma red_surface_facts: "length red_surface = 64 \<and> red_surface ! 0 = 255 \<and> red_surface ! 2 = 0"
  by (simp add: red_surface_def numeral_eq_Suc)

lemma red_surface_fingerprint:
  "hash (contentFingerprint \<lparr>width = 4, height = 4, element_id = []\<rparr> red_surface) = 1122565549"
  by code_simp

lemma red_surface_blue_at_first_clock: "noiseLoop 1700000000000 5 3 0 red_surface ! 2 = 5"
proof -
  have x1: "xorshift32 1700000000000 = 1045329714" by (simp add: xorshift32_def Let_def)
  have x2: "xorshift32 1045329714 = 3852575654" by (simp add: xorshift32_def Let_def)
  have x3: "xorshift32 3852575654 = 3950273228" by (simp add: xorshift32_def Let_def)
  have r: "snd (randomInt 3852575654 (of_int (- 5)) (of_int 5)) = 5"
    using randomInt_int[of "- 5" 5 3852575654] by (simp add: x3)
  have "noiseLoop 1700000000000 5 3 0 red_surface ! 2 =
        clamp8 (max 0 (min 255 (red_surface ! 2 +
           snd (randomInt (xorshift32 (xorshift32 1700000000000)) (of_int (- 5)) (of_int 5)))))"
    using first_pixel[of red_surface 2 1700000000000 5 3]
      noisePixel_blue[of red_surface 1700000000000 5 3] red_surface_facts by simp
  then show ?thesis
    unfolding x1 x2 r using red_surface_facts by (simp add: clamp8_def)
qed

lemma red_surface_blue_at_second_clock: "noiseLoop 1700000000001 5 3 0 red_surface ! 2 = 0"
proof -
  have x1: "xorshift32 1700000000001 = 1045059347" by (simp add: xorshift32_def Let_def)
  have x2: "xorshift32 1045059347 = 3785991591" by (simp add: xorshift32_def Let_def)
  have x3: "xorshift32 3785991591 = 1991821833" by (simp add: xorshift32_def Let_def)
  have r: "snd (randomInt 3785991591 (of_int (- 5)) (of_int 5)) = 0"
    using randomInt_int[of "- 5" 5 3785991591] by (simp add: x3)
  have "noiseLoop 1700000000001 5 3 0 red_surface ! 2 =
        clamp8 (max 0 (min 255 (red_surface ! 2 +
           snd (randomInt (xorshift32 (xorshift32 1700000000001)) (of_int (- 5)) (of_int 5)))))"
    using first_pixel[of red_surface 2 1700000000001 5 3]
      noisePixel_blue[of red_surface 1700000000001 5 3] red_surface_facts by simp
  then show ?thesis
    unfolding x1 x2 r using red_surface_facts by (simp add: clamp8_def)
qed

text \<open>One derived session seed, and one pixel read back through the WebGL wrapper.\<close>

lemma generateSessionSeed_example:
  "generateSessionSeed \<lparr>timestamp = 1700000000000, randomBytes = [0, 0, 0, 0, 128, 132, 30, 65],
                        prngNow = 1700000000000\<rparr> = 1680243332"
  by code_simp

lemma readbackLoop_one_pixel: "readbackLoop 0 0 1 1 False 0 [10, 10, 10, 255] = [4, 5, 6, 255]"
  by code_simp

lemma pixelNoise_one_pixel: "pixelNoise 0 0 1 1 0 = - 6"
  by code_simp

lemma readbackLoop_second_time: "readbackLoop 0 0 1 1 False 0 [4, 5, 6, 255] = [0, 0, 2, 255]"
  by code_simp

text \<open>
  One opaque black pixel read back through the 2D module with session seed 12345: the
  fingerprint \<^verbatim>\<open>1x1:0undefinedundefined\<close> before and after the first pass, and the two passes.
\<close>

lemma black_pixel_fingerprint:
  "hash (contentFingerprint \<lparr>width = 1, height = 1, element_id = []\<rparr> [0, 0, 0, 255]) = 601075801 \<and>
   hash (contentFingerprint \<lparr>width = 1, height = 1, element_id = []\<rparr> [0, 0, 5, 252]) = 601075801"
  by code_simp

lemma black_pixel_first_pass: "noiseLoop 601063520 5 3 0 [0, 0, 0, 255] = [0, 0, 5, 252]"
  by code_simp

lemma black_pixel_second_pass: "noiseLoop 601063520 5 3 0 [0, 0, 5, 252] = [0, 0, 10, 252]"
  by code_simp

lemma black_pixel_readback:
  "spoofGetImageData now
     (init \<lparr>timestamp = 1700000000000, randomBytes = [0, 0, 0, 0, 128, 132, 30, 65],
            prngNow = 1700000000000\<rparr>
        (Num 12345) \<lparr>opt_pixelNoiseRange = None, opt_alphaNoiseRange = None\<rparr>
        (module0 \<lparr>CanvasRenderingContext2D = None, HTMLCanvasElement = None\<rparr>))
     (four_arguments (\<lambda>c a. Inr [0, 0, 0, 255])) \<lparr>width = 1, height = 1, element_id = []\<rparr> (0, 0, 1, 1) =
     Inr [0, 0, 5, 252]"
  by (simp add: spoofGetImageData_def four_arguments_def init_def module0_def assign_options_def
        canvasConfig0_def contentPRNG_def black_pixel_fingerprint js_xor_def createPRNG_def Let_def
        black_pixel_first_pass del: One_nat_def)

text \<open>
  The same pixel with session seed 1668034333, the hash of the fingerprint
  \<^verbatim>\<open>1x1:4undefinedundefined\<close> of the buffer after the first pass: the second pass is seeded
  from the clock.
\<close>

lemma black_pixel_second_fingerprint:
  "hash (contentFingerprint \<lparr>width = 1, height = 1, element_id = []\<rparr> [0, 0, 0, 255]) = 601075801 \<and>
   hash (contentFingerprint \<lparr>width = 1, height = 1, element_id = []\<rparr> [4, 0, 2, 252]) = 1668034333"
  by code_simp

lemma black_pixel_passes_from_clock:
  "noiseLoop 1086299972 5 3 0 [0, 0, 0, 255] = [4, 0, 2, 252] \<and>
   noiseLoop 1700000000000 5 3 0 [4, 0, 2, 252] = [1, 4, 7, 252] \<and>
   noiseLoop 1700000000001 5 3 0 [4, 0, 2, 252] = [1, 4, 2, 252]"
  by code_simp

lemma spoofGetImageData_cong:
  "f this r = g this r \<Longrightarrow> spoofGetImageData now m f this r = spoofGetImageData now m g this r"
  by (simp add: spoofGetImageData_def)

lemma wrapped_getImageData_spoofed:
  "spoofGetImageData n m (four_arguments f) this r = Inr v \<Longrightarrow>
   snd (wrapped_getImageData mode n m f this (r, st)) = Inr v"
  by (simp add: wrapped_getImageData_def tryOrFallback_def)

lemma black_pixel_context_readback:
  "snd (context_getImageData SPOOF_MODE 1700000000000 1700000000000
     (init \<lparr>timestamp = 1700000000000, randomBytes = [0, 0, 0, 0, 128, 132, 30, 65],
            prngNow = 1700000000000\<rparr>
        (Num 1668034333) \<lparr>opt_pixelNoiseRange = None, opt_alphaNoiseRange = None\<rparr>
        (module0 \<lparr>CanvasRenderingContext2D = None, HTMLCanvasElement = None\<rparr>))
     (\<lambda>c (a :: rect \<times> unit option). Inr [0, 0, 0, 255])
     \<lparr>width = 1, height = 1, element_id = []\<rparr> ((0, 0, 1, 1), None)) =
     Inr [1, 4, 7, 252] \<and>
   snd (context_getImageData SPOOF_MODE 1700000000001 1700000000001
     (init \<lparr>timestamp = 1700000000000, randomBytes = [0, 0, 0, 0, 128, 132, 30, 65],
            prngNow = 1700000000000\<rparr>
        (Num 1668034333) \<lparr>opt_pixelNoiseRange = None, opt_alphaNoiseRange = None\<rparr>
        (module0 \<lparr>CanvasRenderingContext2D = None, HTMLCanvasElement = None\<rparr>))
     (\<lambda>c (a :: rect \<times> unit option). Inr [0, 0, 0, 255])
     \<lparr>width = 1, height = 1, element_id = []\<rparr> ((0, 0, 1, 1), None)) =
     Inr [1, 4, 2, 252]"
proof -
  let ?m = "(init \<lparr>timestamp = 1700000000000, randomBytes = [0, 0, 0, 0, 128, 132, 30, 65],
            prngNow = 1700000000000\<rparr>
        (Num 1668034333) \<lparr>opt_pixelNoiseRange = None, opt_alphaNoiseRange = None\<rparr>
        (module0 \<lparr>CanvasRenderingContext2D = None, HTMLCanvasElement = None\<rparr>))"
  let ?n = "\<lambda>(c :: canvas_element) (a :: rect \<times> unit option). Inr [0, 0, 0, 255] :: jserror + int list"
  let ?cv = "\<lparr>width = 1, height = 1, element_id = []\<rparr>"
  have x1: "js_xor (Num 1668034333) (Num 601075801) = 1086299972" by code_simp
  have x2: "js_xor (Num 1668034333) (Num 1668034333) = 0" by (simp add: js_xor_def)
  have s1: "createPRNG now (Num 1086299972) = 1086299972" for now by (simp add: createPRNG_def)
  have p1: "spoofGetImageData now ?m (four_arguments ?n) ?cv (0, 0, 1, 1) = Inr [4, 0, 2, 252]" for now
    by (simp add: spoofGetImageData_def four_arguments_def init_def module0_def assign_options_def
          canvasConfig0_def contentPRNG_def black_pixel_second_fingerprint x1 s1 Let_def
          black_pixel_passes_from_clock del: One_nat_def)
  have w1: "four_arguments (\<lambda>c a. snd (wrapped_getImageData SPOOF_MODE now ?m ?n c a)) ?cv (0, 0, 1, 1) =
            (\<lambda>c r. Inr [4, 0, 2, 252]) ?cv (0, 0, 1, 1)" for now
    using wrapped_getImageData_spoofed[OF p1, of SPOOF_MODE now None] by (simp add: four_arguments_def)
  have p2: "spoofGetImageData 1700000000000 ?m (\<lambda>c r. Inr [4, 0, 2, 252]) ?cv (0, 0, 1, 1) =
              Inr [1, 4, 7, 252]"
    "spoofGetImageData 1700000000001 ?m (\<lambda>c r. Inr [4, 0, 2, 252]) ?cv (0, 0, 1, 1) =
              Inr [1, 4, 2, 252]"
    by (simp_all add: spoofGetImageData_def init_def module0_def assign_options_def
          canvasConfig0_def contentPRNG_def black_pixel_second_fingerprint x2 createPRNG_def Let_def
          black_pixel_passes_from_clock del: One_nat_def)
  have q: "spoofGetImageData n2 ?m
              (four_arguments (\<lambda>c a. snd (wrapped_getImageData SPOOF_MODE now ?m ?n c a))) ?cv (0, 0, 1, 1) =
            spoofGetImageData n2 ?m (\<lambda>c r. Inr [4, 0, 2, 252]) ?cv (0, 0, 1, 1)" for now n2
    by (rule spoofGetImageData_cong[where g = "\<lambda>c r. Inr [4, 0, 2, 252]"]) (rule w1)
  show ?thesis
    unfolding context_getImageData_def
    using
      wrapped_getImageData_spoofed
        [where f = "\<lambda>c a. snd (wrapped_getImageData SPOOF_MODE 1700000000000 ?m ?n c a)"
           and n = 1700000000000 and m = ?m and this = ?cv and r = "(0, 0, 1, 1)"
           and v = "[1, 4, 7, 252]" and mode = SPOOF_MODE and st = None]
      wrapped_getImageData_spoofed
        [where f = "\<lambda>c a. snd (wrapped_getImageData SPOOF_MODE 1700000000001 ?m ?n c a)"
           and n = 1700000000001 and m = ?m and this = ?cv and r = "(0, 0, 1, 1)"
           and v = "[1, 4, 2, 252]" and mode = SPOOF_MODE and st = None]
      q p2
    by simp
qed

text \<open>The fifth argument of a \<^verbatim>\<open>getImageData\<close> call does not reach the host's method.\<close>

lemma settings_argument_dropped:
  "wrapped_getImageData mode now m nativeFn this (r, settings) =
     wrapped_getImageData mode now m nativeFn this (r, None)"
  by (simp add: wrapped_getImageData_def)

text \<open>
  The replacement reads the function it is closed over at the receiver and rectangle of the
  call only.
\<close>

lemma wrapped_getImageData_cong:
  assumes "four_arguments f this r = four_arguments g this r"
    and "spoofGetImageData n m (four_arguments f) this r =
         spoofGetImageData n' m' (four_arguments g) this r"
  shows "wrapped_getImageData mode n m f this (r, st) = wrapped_getImageData mode n' m' g this (r, st)"
  by (simp only: wrapped_getImageData_def tryOrFallback_def fst_conv assms)

text \<open>
  When the spoof path of the replacement on a context throws, the replacement on the
  prototype, which it falls back to, returns what the host's method returns.
\<close>

lemma inner_replacement_returns_native:
  assumes "\<not> hardBlock mode"
    and "spoofGetImageData now2 m
           (four_arguments (\<lambda>c a. snd (wrapped_getImageData mode now1 m nativeGet c a))) ctx r = Inl e"
  shows "snd (wrapped_getImageData mode now1 m nativeGet ctx (r, None)) = nativeGet ctx (r, None)"
  using assms
  by (auto simp add: spoofGetImageData_def wrapped_getImageData_def tryOrFallback_def
        four_arguments_def split: sum.splits option.splits)

section \<open>The claims\<close>

text \<open>
  Claim C1, as the code has it. For every seed that \<^verbatim>\<open>createPRNG\<close> accepts (a non-zero
  number) and every finite sequence of \<^verbatim>\<open>random\<close>, \<^verbatim>\<open>randomInt\<close>, \<^verbatim>\<open>randomRange\<close> and
  \<^verbatim>\<open>hash\<close> calls, two generators created from that seed, at whatever times, return the same
  outputs at every step. The same holds for two content generators built from a session
  seed \<open>S\<close> and a fingerprint \<open>F\<close> whenever \<open>S XOR hash F\<close> is not 0.
\<close>

theorem createPRNG_deterministic:
  "(truthy S \<longrightarrow> drive (createPRNG now1 S) cs = drive (createPRNG now2 S) cs) \<and>
   (js_xor S (Num (uint (hash F))) \<noteq> 0 \<longrightarrow>
      drive (contentPRNG now1 S F) cs = drive (contentPRNG now2 S F) cs)"
  by (simp add: createPRNG_truthy contentPRNG_def)

theorem createPRNG_deterministic_witness:
  "truthy (Num 12345) \<and>
   drive (createPRNG 1 (Num 12345)) [Random, RandomInt (- 5) 5, Hash (ascii ''test'')] =
     drive (createPRNG 2 (Num 12345)) [Random, RandomInt (- 5) 5, Hash (ascii ''test'')] \<and>
   js_xor (Num 12345) (Num (uint (hash (ascii ''test'')))) \<noteq> 0 \<and>
   drive (contentPRNG 1 (Num 12345) (ascii ''test''))
       [Random, RandomInt (- 5) 5, Hash (ascii ''test'')] =
     drive (contentPRNG 2 (Num 12345) (ascii ''test''))
       [Random, RandomInt (- 5) 5, Hash (ascii ''test'')]"
  using createPRNG_deterministic
    [where S = "Num 12345" and F = "ascii ''test''" and ?now1.0 = 1 and ?now2.0 = 2
       and cs = "[Random, RandomInt (- 5) 5, Hash (ascii ''test'')]"]
  by (simp add: js_xor_def hash_def ascii_def)

text \<open>
  Claim C1 as stated, for every seed, fails at seed 0: the constructor replaces it by the
  clock, so two generators created one millisecond apart return different numbers.
\<close>

theorem createPRNG_zero_seed_not_deterministic:
  "drive (createPRNG 1700000000000 (Num 0)) [Random] \<noteq>
   drive (createPRNG 1700000000001 (Num 0)) [Random]"
  by (simp add: createPRNG_def random_js_def xorshift32_def Let_def)

text \<open>
  Claim C2, at the input where the code departs from it. The session seed is 1122565549,
  the FNV-1a hash of the fingerprint \<^verbatim>\<open>4x4:255undefinedundefined\<close> of the red surface, so
  \<^verbatim>\<open>sessionSeed ^ contentHash\<close> is 0, \<^verbatim>\<open>createPRNG\<close> rejects it and seeds the content
  generator from the clock. Two read-backs of the unchanged surface one millisecond apart
  return different buffers (they differ in the blue byte of the first pixel).
\<close>

theorem readback_differs_when_seed_equals_content_hash:
  "spoofGetImageData 1700000000000
     (init \<lparr>timestamp = 1700000000000, randomBytes = [0, 0, 0, 0, 128, 132, 30, 65],
            prngNow = 1700000000000\<rparr>
        (Num 1122565549) \<lparr>opt_pixelNoiseRange = None, opt_alphaNoiseRange = None\<rparr>
        (module0 \<lparr>CanvasRenderingContext2D = None, HTMLCanvasElement = None\<rparr>))
     (\<lambda>c r. Inr red_surface) \<lparr>width = 4, height = 4, element_id = []\<rparr> (0, 0, 4, 4) \<noteq>
   spoofGetImageData 1700000000001
     (init \<lparr>timestamp = 1700000000000, randomBytes = [0, 0, 0, 0, 128, 132, 30, 65],
            prngNow = 1700000000000\<rparr>
        (Num 1122565549) \<lparr>opt_pixelNoiseRange = None, opt_alphaNoiseRange = None\<rparr>
        (module0 \<lparr>CanvasRenderingContext2D = None, HTMLCanvasElement = None\<rparr>))
     (\<lambda>c r. Inr red_surface) \<lparr>width = 4, height = 4, element_id = []\<rparr> (0, 0, 4, 4)"
proof -
  have "noiseLoop 1700000000000 5 3 0 red_surface \<noteq> noiseLoop 1700000000001 5 3 0 red_surface"
    using red_surface_blue_at_first_clock red_surface_blue_at_second_clock by auto
  then show ?thesis
    by (simp add: spoofGetImageData_def init_def module0_def assign_options_def canvasConfig0_def
          contentPRNG_def red_surface_fingerprint js_xor_def createPRNG_def Let_def)
qed

text \<open>
  Claim C3, as the code has it. When the spoofed implementation throws and hard-block mode
  is off, a call wrapped through \<^verbatim>\<open>tryOrFallback\<close> returns what the original method returns
  for the same receiver and the arguments the wrapper forwards: for \<^verbatim>\<open>tryOrFallback\<close> with
  any pair of functions; for the \<^verbatim>\<open>getImageData\<close> (called with its four named arguments),
  \<^verbatim>\<open>toDataURL\<close> and \<^verbatim>\<open>getContext\<close> replacements that \<^verbatim>\<open>patch\<close> installs; and for the
  \<^verbatim>\<open>getImageData\<close> replacement on a context, which returns what the host's method returns.
  The \<^verbatim>\<open>toDataURL\<close> and \<^verbatim>\<open>toBlob\<close> wrappers of the WebGL module are not built on
  \<^verbatim>\<open>tryOrFallback\<close>: an error thrown while the canvas is copied is thrown to the caller.
\<close>

theorem fallback_returns_native:
  assumes "\<not> hardBlock mode"
  shows "(spoofFn this args = Inl e \<longrightarrow>
            snd (tryOrFallback mode nativeFn spoofFn this args moduleName) = nativeFn this args) \<and>
         (spoofGetImageData now m (four_arguments nativeGet) ctx r = Inl e1 \<longrightarrow>
            snd (wrapped_getImageData mode now m nativeGet ctx (r, None)) = nativeGet ctx (r, None)) \<and>
         (snd (spoofToDataURL m prepare render cv a) = Inl e2 \<longrightarrow>
            snd (snd (wrapped_toDataURL mode m nativeUrl prepare render cv a)) = nativeUrl cv a) \<and>
         (snd (spoofGetContext tbl proto nativeCtx cv ca) = Inl e3 \<longrightarrow>
            snd (snd (wrapped_getContext mode tbl proto nativeCtx cv ca)) = nativeCtx cv ca) \<and>
         (spoofGetImageData now2 m
            (four_arguments (\<lambda>c a. snd (wrapped_getImageData mode now1 m nativeGet c a))) ctx r = Inl e4 \<longrightarrow>
            snd (context_getImageData mode now1 now2 m nativeGet ctx (r, None)) =
              nativeGet ctx (r, None)) \<and>
         (handle glc = handle gl_canvas \<and> originalToDataURL glc urlArgs = Inr url \<and>
          snapshot glc = Inl e5 \<longrightarrow>
            toDataURL_spoofed sess gl_canvas originalToDataURL snapshot encode glc urlArgs = Inl e5) \<and>
         (handle glc = handle gl_canvas \<and> snapshot glc = Inl e5 \<longrightarrow>
            toBlob_spoofed sess gl_canvas originalToBlob snapshot encodeBlob glc blobArgs = Inl e5)"
proof -
  have stacked:
    "snd (context_getImageData mode now1 now2 m nativeGet ctx (r, None)) = nativeGet ctx (r, None)"
    if "spoofGetImageData now2 m
          (four_arguments (\<lambda>c a. snd (wrapped_getImageData mode now1 m nativeGet c a))) ctx r = Inl e4"
  proof -
    have "snd (context_getImageData mode now1 now2 m nativeGet ctx (r, None)) =
          snd (wrapped_getImageData mode now1 m nativeGet ctx (r, None))"
      using assms that
      by (simp add: context_getImageData_def wrapped_getImageData_def[of mode now2] tryOrFallback_def
            four_arguments_def)
    then show ?thesis
      using inner_replacement_returns_native[OF assms that] by simp
  qed
  have webgl:
    "handle glc = handle gl_canvas \<and> originalToDataURL glc urlArgs = Inr url \<and>
     snapshot glc = Inl e5 \<longrightarrow>
       toDataURL_spoofed sess gl_canvas originalToDataURL snapshot encode glc urlArgs = Inl e5"
    "handle glc = handle gl_canvas \<and> snapshot glc = Inl e5 \<longrightarrow>
       toBlob_spoofed sess gl_canvas originalToBlob snapshot encodeBlob glc blobArgs = Inl e5"
    by (simp_all add: toDataURL_spoofed_def toBlob_spoofed_def)
  have canvas2d:
    "(spoofFn this args = Inl e \<longrightarrow>
        snd (tryOrFallback mode nativeFn spoofFn this args moduleName) = nativeFn this args) \<and>
     (spoofGetImageData now m (four_arguments nativeGet) ctx r = Inl e1 \<longrightarrow>
        snd (wrapped_getImageData mode now m nativeGet ctx (r, None)) = nativeGet ctx (r, None)) \<and>
     (snd (spoofToDataURL m prepare render cv a) = Inl e2 \<longrightarrow>
        snd (snd (wrapped_toDataURL mode m nativeUrl prepare render cv a)) = nativeUrl cv a) \<and>
     (snd (spoofGetContext tbl proto nativeCtx cv ca) = Inl e3 \<longrightarrow>
        snd (snd (wrapped_getContext mode tbl proto nativeCtx cv ca)) = nativeCtx cv ca)"
    using assms
    by (simp add: tryOrFallback_def wrapped_getImageData_def wrapped_toDataURL_def
          wrapped_getContext_def four_arguments_def split: prod.splits)
  show ?thesis
    using canvas2d stacked webgl by blast
qed

theorem fallback_returns_native_witness:
  "\<not> hardBlock SPOOF_MODE \<and>
   (\<lambda>c a. Inl TypeError :: jserror + nat) (1 :: nat) (2 :: nat) = Inl TypeError \<and>
   snd (tryOrFallback SPOOF_MODE (\<lambda>c a. Inr (c + a)) (\<lambda>c a. Inl TypeError) (1 :: nat) (2 :: nat)
          ''canvas.test'') = Inr (3 :: nat) \<and>
   spoofGetImageData 0 (module0 \<lparr>CanvasRenderingContext2D = None, HTMLCanvasElement = None\<rparr>)
       (four_arguments (\<lambda>c (a :: rect \<times> unit option). Inr [255, 0, 0, 255]))
       \<lparr>width = 1, height = 1, element_id = []\<rparr> (0, 0, 1, 1) = Inl TypeError \<and>
   snd (wrapped_getImageData SPOOF_MODE 0
          (module0 \<lparr>CanvasRenderingContext2D = None, HTMLCanvasElement = None\<rparr>)
          (\<lambda>c (a :: rect \<times> unit option). Inr [255, 0, 0, 255])
          \<lparr>width = 1, height = 1, element_id = []\<rparr> ((0, 0, 1, 1), None)) =
     Inr [255, 0, 0, 255] \<and>
   snd (spoofToDataURL (module0 \<lparr>CanvasRenderingContext2D = None, HTMLCanvasElement = None\<rparr>)
          (\<lambda>c. None) (\<lambda>t c a. Inr ''data:spoofed'')
          \<lparr>width = 1, height = 1, element_id = []\<rparr> ()) = Inl TypeError \<and>
   snd (snd (wrapped_toDataURL SPOOF_MODE
          (module0 \<lparr>CanvasRenderingContext2D = None, HTMLCanvasElement = None\<rparr>)
          (\<lambda>c a. Inr ''data:native'') (\<lambda>c. None) (\<lambda>t c a. Inr ''data:spoofed'')
          \<lparr>width = 1, height = 1, element_id = []\<rparr> ())) = Inr ''data:native'' \<and>
   snd (spoofGetContext \<lparr>processed = {}, own_getImageData = \<lambda>c. None\<rparr> (Wrapper GetImageData)
          (\<lambda>c a. Inr None) \<lparr>width = 1, height = 1, element_id = []\<rparr> (''2d'', ())) =
     Inl TypeError \<and>
   snd (snd (wrapped_getContext SPOOF_MODE \<lparr>processed = {}, own_getImageData = \<lambda>c. None\<rparr>
          (Wrapper GetImageData) (\<lambda>c a. Inr None)
          \<lparr>width = 1, height = 1, element_id = []\<rparr> (''2d'', ()))) = Inr None \<and>
   spoofGetImageData 2 (module0 \<lparr>CanvasRenderingContext2D = None, HTMLCanvasElement = None\<rparr>)
       (four_arguments (\<lambda>c a. snd (wrapped_getImageData SPOOF_MODE 1
          (module0 \<lparr>CanvasRenderingContext2D = None, HTMLCanvasElement = None\<rparr>)
          (\<lambda>c (a :: rect \<times> unit option). Inr [255, 0, 0, 255]) c a)))
       \<lparr>width = 1, height = 1, element_id = []\<rparr> (0, 0, 1, 1) = Inl TypeError \<and>
   snd (context_getImageData SPOOF_MODE 1 2
          (module0 \<lparr>CanvasRenderingContext2D = None, HTMLCanvasElement = None\<rparr>)
          (\<lambda>c (a :: rect \<times> unit option). Inr [255, 0, 0, 255])
          \<lparr>width = 1, height = 1, element_id = []\<rparr> ((0, 0, 1, 1), None)) =
     Inr [255, 0, 0, 255] \<and>
   toDataURL_spoofed
     \<lparr>config_seed = Num 42, session_prng = 42, activeProfile = nvidia_rtx_3080, enabled = True\<rparr>
     \<lparr>handle = 1, surface = \<lparr>width = 0, height = 0, element_id = []\<rparr>\<rparr>
     (\<lambda>c a. Inr ''data:,'') (\<lambda>c. Inl (HostError ''InvalidStateError''))
     (\<lambda>w h px a. Inr ''data:noised'')
     \<lparr>handle = 1, surface = \<lparr>width = 0, height = 0, element_id = []\<rparr>\<rparr> () =
     Inl (HostError ''InvalidStateError'') \<and>
   toBlob_spoofed
     \<lparr>config_seed = Num 42, session_prng = 42, activeProfile = nvidia_rtx_3080, enabled = True\<rparr>
     \<lparr>handle = 1, surface = \<lparr>width = 0, height = 0, element_id = []\<rparr>\<rparr>
     (\<lambda>c a. Inr ''blob:native'') (\<lambda>c. Inl (HostError ''InvalidStateError''))
     (\<lambda>w h px a. Inr ''blob:noised'')
     \<lparr>handle = 1, surface = \<lparr>width = 0, height = 0, element_id = []\<rparr>\<rparr> () =
     (Inl (HostError ''InvalidStateError'') :: jserror + string)"
  using fallback_returns_native
    [where mode = SPOOF_MODE
       and spoofFn = "\<lambda>c a. Inl TypeError :: jserror + nat" and this = "1 :: nat"
       and args = "2 :: nat" and e = TypeError and nativeFn = "\<lambda>c a. Inr (c + a)"
       and moduleName = "''canvas.test''"
       and now = 0 and ?now1.0 = 1 and ?now2.0 = 2
       and m = "module0 \<lparr>CanvasRenderingContext2D = None, HTMLCanvasElement = None\<rparr>"
       and nativeGet = "\<lambda>c (a :: rect \<times> unit option). Inr [255, 0, 0, 255]"
       and ctx = "\<lparr>width = 1, height = 1, element_id = []\<rparr>" and r = "(0, 0, 1, 1)"
       and ?e1.0 = TypeError and ?e4.0 = TypeError
       and prepare = "\<lambda>c. None" and render = "\<lambda>t c a. Inr ''data:spoofed''"
       and cv = "\<lparr>width = 1, height = 1, element_id = []\<rparr>" and a = "()"
       and ?e2.0 = TypeError and nativeUrl = "\<lambda>c a. Inr ''data:native''"
       and tbl = "\<lparr>processed = {}, own_getImageData = \<lambda>c. None\<rparr>"
       and proto = "Wrapper GetImageData"
       and nativeCtx = "\<lambda>c a. Inr None" and ca = "(''2d'', ())"
       and ?e3.0 = TypeError
       and sess = "\<lparr>config_seed = Num 42, session_prng = 42, activeProfile = nvidia_rtx_3080,
                     enabled = True\<rparr>"
       and gl_canvas = "\<lparr>handle = 1, surface = \<lparr>width = 0, height = 0, element_id = []\<rparr>\<rparr>"
       and glc = "\<lparr>handle = 1, surface = \<lparr>width = 0, height = 0, element_id = []\<rparr>\<rparr>"
       and originalToDataURL = "\<lambda>c a. Inr ''data:,''" and urlArgs = "()" and url = "''data:,''"
       and snapshot = "\<lambda>c. Inl (HostError ''InvalidStateError'')"
       and ?e5.0 = "HostError ''InvalidStateError''"
       and encode = "\<lambda>w h px a. Inr ''data:noised''"
       and originalToBlob = "\<lambda>c a. Inr ''blob:native'' :: jserror + string" and blobArgs = "()"
       and encodeBlob = "\<lambda>w h px a. Inr ''blob:noised''"]
  by (simp add: SPOOF_MODE_def spoofGetImageData_def spoofToDataURL_def spoofGetContext_def
        module0_def four_arguments_def wrapped_getImageData_def tryOrFallback_def)

text \<open>
  Claim C3 as stated, for every wrapped method, fails for the wrappers of the WebGL module,
  which have no fallback. A WebGL canvas of width and height 0: the host's \<^verbatim>\<open>toDataURL\<close>
  returns \<^verbatim>\<open>data:,\<close>, and drawing the canvas onto the temporary one throws; the wrapped
  \<^verbatim>\<open>toDataURL\<close> throws that error.
\<close>

theorem webgl_toDataURL_has_no_fallback:
  "context_toDataURL
     \<lparr>config_seed = Num 42, session_prng = 42, activeProfile = nvidia_rtx_3080, enabled = True\<rparr>
     ''webgl'' 1 \<lparr>handle = 1, surface = \<lparr>width = 0, height = 0, element_id = []\<rparr>\<rparr>
     (\<lambda>c a. Inr ''data:,'') (\<lambda>c. Inl (HostError ''InvalidStateError''))
     (\<lambda>w h px a. Inr ''data:noised'')
     \<lparr>handle = 1, surface = \<lparr>width = 0, height = 0, element_id = []\<rparr>\<rparr> () =
     Inl (HostError ''InvalidStateError'') \<and>
   (\<lambda>c a. Inr ''data:,'' :: jserror + string)
     \<lparr>handle = 1, surface = \<lparr>width = 0, height = 0, element_id = []\<rparr>\<rparr> () = Inr ''data:,''"
  by (simp add: context_toDataURL_def context_spoofed_def webgl_context_types_def
        applyWebGLSpoofing_installs_def toDataURL_spoofed_def)

text \<open>
  Claim C4. A second \<^verbatim>\<open>patch\<close> changes nothing and returns what the first returned; a
  second \<^verbatim>\<open>unpatch\<close> likewise; and \<^verbatim>\<open>patch\<close> followed by \<^verbatim>\<open>unpatch\<close>, from the
  unpatched state, leaves in every prototype slot the function reference it held before.
\<close>

theorem patch_unpatch_idempotent:
  "patch (fst (patch m)) = patch m \<and>
   unpatch (fst (unpatch m)) = unpatch m \<and>
   (\<not> isPatched m \<longrightarrow> host (fst (unpatch (fst (patch m)))) = host m)"
  by (simp add: patch_def unpatch_def split: option.splits)

theorem patch_unpatch_idempotent_witness:
  "\<not> isPatched (module0 \<lparr>CanvasRenderingContext2D = Some (Native 1),
        HTMLCanvasElement = Some \<lparr>toDataURL_slot = Native 2, getContext_slot = Native 3\<rparr>\<rparr>) \<and>
   isPatched (fst (patch (module0 \<lparr>CanvasRenderingContext2D = Some (Native 1),
        HTMLCanvasElement = Some \<lparr>toDataURL_slot = Native 2, getContext_slot = Native 3\<rparr>\<rparr>))) \<and>
   host (fst (unpatch (fst (patch (module0 \<lparr>CanvasRenderingContext2D = Some (Native 1),
        HTMLCanvasElement = Some \<lparr>toDataURL_slot = Native 2, getContext_slot = Native 3\<rparr>\<rparr>))))) =
     \<lparr>CanvasRenderingContext2D = Some (Native 1),
      HTMLCanvasElement = Some \<lparr>toDataURL_slot = Native 2, getContext_slot = Native 3\<rparr>\<rparr>"
  using patch_unpatch_idempotent
    [where m = "module0 \<lparr>CanvasRenderingContext2D = Some (Native 1),
        HTMLCanvasElement = Some \<lparr>toDataURL_slot = Native 2, getContext_slot = Native 3\<rparr>\<rparr>"]
  by (simp add: module0_def patch_def)

text \<open>
  Claim C5, as the code has it. Seed 0 is treated as no seed at all: the generator is the
  one an absent seed gives, seeded from the clock. The remap to 1 is applied to the coerced
  state: a non-zero seed whose unsigned 32-bit value is 0, such as \<open>2^32\<close>, behaves as seed 1
  for every call sequence.
\<close>

theorem zero_seed_is_absent_seed:
  "(truthy S \<and> ToUint32 S = 0 \<longrightarrow> drive (createPRNG now S) cs = drive (createPRNG now' (Num 1)) cs) \<and>
   drive (createPRNG now (Num 0)) cs = drive (createPRNG now Undefined) cs"
  by (simp add: createPRNG_truthy createPRNG_falsy)

theorem zero_seed_is_absent_seed_witness:
  "truthy (Num 4294967296) \<and> ToUint32 (Num 4294967296) = 0 \<and>
   drive (createPRNG 5 (Num 4294967296)) [Random, Random] = drive (createPRNG 7 (Num 1)) [Random, Random] \<and>
   drive (createPRNG 5 (Num 0)) [Random, Random] = drive (createPRNG 5 Undefined) [Random, Random]"
  using zero_seed_is_absent_seed
    [where S = "Num 4294967296" and now = 5 and now' = 7 and cs = "[Random, Random]"]
  by simp

text \<open>
  Claim C5 as stated fails: with the clock at 1700000000000, seed 0 and seed 1 give
  different first numbers.
\<close>

theorem zero_seed_differs_from_one:
  "drive (createPRNG 1700000000000 (Num 0)) [Random] \<noteq>
   drive (createPRNG 1700000000000 (Num 1)) [Random]"
  by (simp add: createPRNG_def random_js_def xorshift32_def Let_def)

text \<open>
  Claim C6, as the code has it. For every override seed that is a non-zero number,
  \<^verbatim>\<open>init\<close> adopts it verbatim: \<^verbatim>\<open>getStatus\<close> reports it, and the module state after
  \<^verbatim>\<open>init\<close> is the same whatever the clock and the ambient random value were, so the export
  jitter drawn from it is the same. The noise of one read-back pass is the same at any two
  times whenever the seed XOR the content hash is not 0; so is the read-back through the
  replacement on the prototype, and the read-back through a context from the patched
  \<^verbatim>\<open>getContext\<close>, which makes two passes, whenever that holds for the surface and for the
  buffer after the first pass. A seed of 0 is treated as a seed that was not supplied: the
  session seed is generated from the entropy.
\<close>

theorem init_adopts_override_seed:
  "(truthy s \<longrightarrow>
      sessionSeed (init e s opts m) = s \<and>
      fst (snd (getStatus (init e s opts m))) = s \<and>
      init e s opts m = init e' s opts m \<and>
      spoofToDataURL (init e s opts m) prepare render cv a =
        spoofToDataURL (init e' s opts m) prepare render cv a \<and>
      (originalFn cv r = Inr buf \<and> js_xor s (Num (uint (hash (contentFingerprint cv buf)))) \<noteq> 0 \<longrightarrow>
         spoofGetImageData now (init e s opts m) originalFn cv r =
           spoofGetImageData now' (init e' s opts m) originalFn cv r) \<and>
      (nativeFn cv (r, None) = Inr buf \<and>
       js_xor s (Num (uint (hash (contentFingerprint cv buf)))) \<noteq> 0 \<longrightarrow>
         wrapped_getImageData mode now (init e s opts m) nativeFn cv (r, settings) =
           wrapped_getImageData mode now' (init e' s opts m) nativeFn cv (r, settings)) \<and>
      (nativeFn cv (r, None) = Inr buf \<and>
       js_xor s (Num (uint (hash (contentFingerprint cv buf)))) \<noteq> 0 \<and>
       spoofGetImageData now1 (init e s opts m) (four_arguments nativeFn) cv r = Inr buf1 \<and>
       js_xor s (Num (uint (hash (contentFingerprint cv buf1)))) \<noteq> 0 \<longrightarrow>
         context_getImageData mode now1 now2 (init e s opts m) nativeFn cv (r, settings) =
           context_getImageData mode now1' now2' (init e' s opts m) nativeFn cv (r, settings))) \<and>
   init e (Num 0) opts m = init e Undefined opts m \<and>
   sessionSeed (init e (Num 0) opts m) = Num (uint (generateSessionSeed e))"
proof -
  have pass: "spoofGetImageData n1 (init e s opts m) f cv r = spoofGetImageData n2 (init e' s opts m) f cv r"
    if "truthy s" and "f cv r = Inr b" and "js_xor s (Num (uint (hash (contentFingerprint cv b)))) \<noteq> 0"
    for n1 n2 f b
    using that by (simp add: init_def createPRNG_truthy spoofGetImageData_def contentPRNG_def)
  have proto: "wrapped_getImageData mode n1 (init e s opts m) nativeFn cv (r, st) =
               wrapped_getImageData mode n2 (init e' s opts m) nativeFn cv (r, st)"
    if "truthy s" and "nativeFn cv (r, None) = Inr buf"
      and "js_xor s (Num (uint (hash (contentFingerprint cv buf)))) \<noteq> 0"
    for n1 n2 st
    using pass[where f = "four_arguments nativeFn" and b = buf and ?n1.0 = n1 and ?n2.0 = n2] that
    by (simp add: wrapped_getImageData_def tryOrFallback_def four_arguments_def)
  have ctx: "context_getImageData mode now1 now2 (init e s opts m) nativeFn cv (r, settings) =
             context_getImageData mode now1' now2' (init e' s opts m) nativeFn cv (r, settings)"
    if t: "truthy s" and n: "nativeFn cv (r, None) = Inr buf"
      and x: "js_xor s (Num (uint (hash (contentFingerprint cv buf)))) \<noteq> 0"
      and p: "spoofGetImageData now1 (init e s opts m) (four_arguments nativeFn) cv r = Inr buf1"
      and x1: "js_xor s (Num (uint (hash (contentFingerprint cv buf1)))) \<noteq> 0"
  proof -
    let ?W = "\<lambda>k mo. four_arguments (\<lambda>c a. snd (wrapped_getImageData mode k mo nativeFn c a))"
    have p': "spoofGetImageData now1' (init e' s opts m) (four_arguments nativeFn) cv r = Inr buf1"
      using pass[where f = "four_arguments nativeFn" and b = buf and ?n1.0 = now1 and ?n2.0 = now1']
        t n x p
      by (simp add: four_arguments_def)
    have w: "?W now1 (init e s opts m) cv r = Inr buf1"
      using p by (simp add: wrapped_getImageData_def tryOrFallback_def four_arguments_def)
    have w': "?W now1' (init e' s opts m) cv r = Inr buf1"
      using p' by (simp add: wrapped_getImageData_def tryOrFallback_def four_arguments_def)
    have m: "init e s opts m = init e' s opts m" using t by (simp add: init_def createPRNG_truthy)
    have o: "spoofGetImageData now2 (init e s opts m) (?W now1 (init e s opts m)) cv r =
             spoofGetImageData now2' (init e' s opts m) (?W now1' (init e' s opts m)) cv r"
      using t w w' x1 m
      by (simp add: init_def createPRNG_truthy spoofGetImageData_def contentPRNG_def)
    have ww: "?W now1 (init e s opts m) cv r = ?W now1' (init e' s opts m) cv r"
      using w w' by simp
    show ?thesis
      unfolding context_getImageData_def by (rule wrapped_getImageData_cong[OF ww o])
  qed
  have zero: "init e (Num 0) opts m = init e Undefined opts m"
    "sessionSeed (init e (Num 0) opts m) = Num (uint (generateSessionSeed e))"
    by (simp_all add: init_def Let_def)
  have base: "truthy s \<Longrightarrow>
      sessionSeed (init e s opts m) = s \<and>
      fst (snd (getStatus (init e s opts m))) = s \<and>
      init e s opts m = init e' s opts m \<and>
      spoofToDataURL (init e s opts m) prepare render cv a =
        spoofToDataURL (init e' s opts m) prepare render cv a"
    by (simp add: init_def getStatus_def createPRNG_truthy)
  show ?thesis
    using base pass[where f = originalFn and b = buf and ?n1.0 = now and ?n2.0 = now']
      proto[where ?n1.0 = now and ?n2.0 = now' and st = settings] ctx zero
    by blast
qed

theorem init_adopts_override_seed_witness:
  "truthy (Num 12345) \<and>
   fst (snd (getStatus (init \<lparr>timestamp = 1700000000000, randomBytes = [0, 0, 0, 0, 128, 132, 30, 65],
            prngNow = 1700000000000\<rparr>
        (Num 12345) \<lparr>opt_pixelNoiseRange = None, opt_alphaNoiseRange = None\<rparr>
        (module0 \<lparr>CanvasRenderingContext2D = None, HTMLCanvasElement = None\<rparr>)))) = Num 12345 \<and>
   (init \<lparr>timestamp = 1700000000000, randomBytes = [0, 0, 0, 0, 128, 132, 30, 65],
            prngNow = 1700000000000\<rparr>
        (Num 12345) \<lparr>opt_pixelNoiseRange = None, opt_alphaNoiseRange = None\<rparr>
        (module0 \<lparr>CanvasRenderingContext2D = None, HTMLCanvasElement = None\<rparr>)) =
   (init \<lparr>timestamp = 7, randomBytes = [], prngNow = 9\<rparr>
        (Num 12345) \<lparr>opt_pixelNoiseRange = None, opt_alphaNoiseRange = None\<rparr>
        (module0 \<lparr>CanvasRenderingContext2D = None, HTMLCanvasElement = None\<rparr>)) \<and>
   js_xor (Num 12345)
     (Num (uint (hash (contentFingerprint \<lparr>width = 1, height = 1, element_id = []\<rparr> [0, 0, 0, 255])))) \<noteq> 0 \<and>
   spoofGetImageData 1700000000000
     (init \<lparr>timestamp = 1700000000000, randomBytes = [0, 0, 0, 0, 128, 132, 30, 65],
            prngNow = 1700000000000\<rparr>
        (Num 12345) \<lparr>opt_pixelNoiseRange = None, opt_alphaNoiseRange = None\<rparr>
        (module0 \<lparr>CanvasRenderingContext2D = None, HTMLCanvasElement = None\<rparr>))
     (four_arguments (\<lambda>c (a :: rect \<times> unit option). Inr [0, 0, 0, 255]))
     \<lparr>width = 1, height = 1, element_id = []\<rparr> (0, 0, 1, 1) =
     Inr [0, 0, 5, 252] \<and>
   js_xor (Num 12345)
     (Num (uint (hash (contentFingerprint \<lparr>width = 1, height = 1, element_id = []\<rparr> [0, 0, 5, 252])))) \<noteq> 0 \<and>
   spoofGetImageData 1700000000000
     (init \<lparr>timestamp = 1700000000000, randomBytes = [0, 0, 0, 0, 128, 132, 30, 65],
            prngNow = 1700000000000\<rparr>
        (Num 12345) \<lparr>opt_pixelNoiseRange = None, opt_alphaNoiseRange = None\<rparr>
        (module0 \<lparr>CanvasRenderingContext2D = None, HTMLCanvasElement = None\<rparr>))
     (four_arguments (\<lambda>c (a :: rect \<times> unit option). Inr [0, 0, 0, 255]))
     \<lparr>width = 1, height = 1, element_id = []\<rparr> (0, 0, 1, 1) =
   spoofGetImageData 1700000000001
     (init \<lparr>timestamp = 7, randomBytes = [], prngNow = 9\<rparr>
        (Num 12345) \<lparr>opt_pixelNoiseRange = None, opt_alphaNoiseRange = None\<rparr>
        (module0 \<lparr>CanvasRenderingContext2D = None, HTMLCanvasElement = None\<rparr>))
     (four_arguments (\<lambda>c (a :: rect \<times> unit option). Inr [0, 0, 0, 255]))
     \<lparr>width = 1, height = 1, element_id = []\<rparr> (0, 0, 1, 1) \<and>
   wrapped_getImageData SPOOF_MODE 1700000000000
     (init \<lparr>timestamp = 1700000000000, randomBytes = [0, 0, 0, 0, 128, 132, 30, 65],
            prngNow = 1700000000000\<rparr>
        (Num 12345) \<lparr>opt_pixelNoiseRange = None, opt_alphaNoiseRange = None\<rparr>
        (module0 \<lparr>CanvasRenderingContext2D = None, HTMLCanvasElement = None\<rparr>))
     (\<lambda>c (a :: rect \<times> unit option). Inr [0, 0, 0, 255])
     \<lparr>width = 1, height = 1, element_id = []\<rparr> ((0, 0, 1, 1), None) =
   wrapped_getImageData SPOOF_MODE 1700000000001
     (init \<lparr>timestamp = 7, randomBytes = [], prngNow = 9\<rparr>
        (Num 12345) \<lparr>opt_pixelNoiseRange = None, opt_alphaNoiseRange = None\<rparr>
        (module0 \<lparr>CanvasRenderingContext2D = None, HTMLCanvasElement = None\<rparr>))
     (\<lambda>c (a :: rect \<times> unit option). Inr [0, 0, 0, 255])
     \<lparr>width = 1, height = 1, element_id = []\<rparr> ((0, 0, 1, 1), None) \<and>
   context_getImageData SPOOF_MODE 1700000000000 1700000000000
     (init \<lparr>timestamp = 1700000000000, randomBytes = [0, 0, 0, 0, 128, 132, 30, 65],
            prngNow = 1700000000000\<rparr>
        (Num 12345) \<lparr>opt_pixelNoiseRange = None, opt_alphaNoiseRange = None\<rparr>
        (module0 \<lparr>CanvasRenderingContext2D = None, HTMLCanvasElement = None\<rparr>))
     (\<lambda>c (a :: rect \<times> unit option). Inr [0, 0, 0, 255])
     \<lparr>width = 1, height = 1, element_id = []\<rparr> ((0, 0, 1, 1), None) =
   context_getImageData SPOOF_MODE 1700000000001 1700000000002
     (init \<lparr>timestamp = 7, randomBytes = [], prngNow = 9\<rparr>
        (Num 12345) \<lparr>opt_pixelNoiseRange = None, opt_alphaNoiseRange = None\<rparr>
        (module0 \<lparr>CanvasRenderingContext2D = None, HTMLCanvasElement = None\<rparr>))
     (\<lambda>c (a :: rect \<times> unit option). Inr [0, 0, 0, 255])
     \<lparr>width = 1, height = 1, element_id = []\<rparr> ((0, 0, 1, 1), None) \<and>
   sessionSeed (init \<lparr>timestamp = 1700000000000, randomBytes = [0, 0, 0, 0, 128, 132, 30, 65],
            prngNow = 1700000000000\<rparr>
        (Num 0) \<lparr>opt_pixelNoiseRange = None, opt_alphaNoiseRange = None\<rparr>
        (module0 \<lparr>CanvasRenderingContext2D = None, HTMLCanvasElement = None\<rparr>)) = Num 1680243332"
proof -
  have t: "truthy (Num 12345)" by simp
  have x: "js_xor (Num 12345)
     (Num (uint (hash (contentFingerprint \<lparr>width = 1, height = 1, element_id = []\<rparr> [0, 0, 0, 255])))) \<noteq> 0"
    by (simp add: black_pixel_fingerprint js_xor_def del: One_nat_def)
  have x1: "js_xor (Num 12345)
     (Num (uint (hash (contentFingerprint \<lparr>width = 1, height = 1, element_id = []\<rparr> [0, 0, 5, 252])))) \<noteq> 0"
    by (simp add: black_pixel_fingerprint js_xor_def del: One_nat_def)
  have p: "spoofGetImageData 1700000000000
     (init \<lparr>timestamp = 1700000000000, randomBytes = [0, 0, 0, 0, 128, 132, 30, 65],
            prngNow = 1700000000000\<rparr>
        (Num 12345) \<lparr>opt_pixelNoiseRange = None, opt_alphaNoiseRange = None\<rparr>
        (module0 \<lparr>CanvasRenderingContext2D = None, HTMLCanvasElement = None\<rparr>))
     (four_arguments (\<lambda>c (a :: rect \<times> unit option). Inr [0, 0, 0, 255]))
     \<lparr>width = 1, height = 1, element_id = []\<rparr> (0, 0, 1, 1) =
     Inr [0, 0, 5, 252]"
    by (rule black_pixel_readback)
  have o: "four_arguments (\<lambda>c (a :: rect \<times> unit option). Inr [0, 0, 0, 255] :: jserror + int list)
             \<lparr>width = 1, height = 1, element_id = []\<rparr> (0, 0, 1, 1) = Inr [0, 0, 0, 255]"
    by (simp add: four_arguments_def)
  have g: "Num (uint (generateSessionSeed
             \<lparr>timestamp = 1700000000000, randomBytes = [0, 0, 0, 0, 128, 132, 30, 65],
              prngNow = 1700000000000\<rparr>)) = Num 1680243332"
    by (simp add: generateSessionSeed_example)
  note claim = init_adopts_override_seed
      [where s = "Num 12345"
         and e = "\<lparr>timestamp = 1700000000000, randomBytes = [0, 0, 0, 0, 128, 132, 30, 65],
                  prngNow = 1700000000000\<rparr>"
         and e' = "\<lparr>timestamp = 7, randomBytes = [], prngNow = 9\<rparr>"
         and opts = "\<lparr>opt_pixelNoiseRange = None, opt_alphaNoiseRange = None\<rparr>"
         and m = "module0 \<lparr>CanvasRenderingContext2D = None, HTMLCanvasElement = None\<rparr>"
         and originalFn = "four_arguments (\<lambda>c (a :: rect \<times> unit option). Inr [0, 0, 0, 255])"
         and nativeFn = "\<lambda>c (a :: rect \<times> unit option). Inr [0, 0, 0, 255]"
         and cv = "\<lparr>width = 1, height = 1, element_id = []\<rparr>" and r = "(0, 0, 1, 1)"
         and buf = "[0, 0, 0, 255]" and ?buf1.0 = "[0, 0, 5, 252]"
         and mode = SPOOF_MODE and settings = None
         and now = 1700000000000 and now' = 1700000000001
         and ?now1.0 = 1700000000000 and ?now2.0 = 1700000000000
         and ?now1' = 1700000000001 and ?now2' = 1700000000002
         and prepare = "\<lambda>c. None" and render = "\<lambda>t c a. Inr ''data:,''" and a = "()"]
  have z: "sessionSeed (init \<lparr>timestamp = 1700000000000, randomBytes = [0, 0, 0, 0, 128, 132, 30, 65],
            prngNow = 1700000000000\<rparr>
        (Num 0) \<lparr>opt_pixelNoiseRange = None, opt_alphaNoiseRange = None\<rparr>
        (module0 \<lparr>CanvasRenderingContext2D = None, HTMLCanvasElement = None\<rparr>)) = Num 1680243332"
    using claim[THEN conjunct2, THEN conjunct2] g by (rule trans)
  show ?thesis
    using t x x1 p o z claim[THEN conjunct1, THEN mp, OF t] by blast
qed

text \<open>
  Claim C6 as stated includes seed 0, and fails there: \<^verbatim>\<open>init(0)\<close> generates a seed from
  the entropy, and \<^verbatim>\<open>getStatus\<close> reports that one.
\<close>

theorem init_zero_seed_not_adopted:
  "fst (snd (getStatus (init \<lparr>timestamp = 1700000000000, randomBytes = [0, 0, 0, 0, 128, 132, 30, 65],
                              prngNow = 1700000000000\<rparr>
        (Num 0) \<lparr>opt_pixelNoiseRange = None, opt_alphaNoiseRange = None\<rparr>
        (module0 \<lparr>CanvasRenderingContext2D = None, HTMLCanvasElement = None\<rparr>)))) \<noteq> Num 0"
  by (simp add: init_def getStatus_def generateSessionSeed_example Let_def)

text \<open>
  Claim C7. With the WebGL values of \<^verbatim>\<open>gl.VENDOR\<close> and \<^verbatim>\<open>gl.RENDERER\<close>, the wrapped
  \<^verbatim>\<open>getParameter\<close> returns the active profile's \<^verbatim>\<open>unmaskedRenderer\<close> for token 0x9246, its
  \<^verbatim>\<open>unmaskedVendor\<close> for 0x9245, its \<^verbatim>\<open>vendor\<close> and \<^verbatim>\<open>renderer\<close> for the two standard
  tokens, and for every other token what the real \<^verbatim>\<open>getParameter\<close> returns.
\<close>

theorem getParameter_spoofed_tokens:
  assumes "VENDOR gl = JNumber 0x1F00" and "RENDERER gl = JNumber 0x1F01"
  shows "getParameter_spoofed sess gl originalGetParameter (JNumber 0x9246) =
           Inr (JString (unmaskedRenderer (activeProfile sess))) \<and>
         getParameter_spoofed sess gl originalGetParameter (JNumber 0x9245) =
           Inr (JString (unmaskedVendor (activeProfile sess))) \<and>
         getParameter_spoofed sess gl originalGetParameter (VENDOR gl) =
           Inr (JString (vendor (activeProfile sess))) \<and>
         getParameter_spoofed sess gl originalGetParameter (RENDERER gl) =
           Inr (JString (renderer (activeProfile sess))) \<and>
         (pname \<noteq> JNumber 0x9245 \<and> pname \<noteq> JNumber 0x9246 \<and> pname \<noteq> VENDOR gl \<and>
          pname \<noteq> RENDERER gl \<longrightarrow>
            getParameter_spoofed sess gl originalGetParameter pname = originalGetParameter pname)"
  using assms
  by (simp add: getParameter_spoofed_def UNMASKED_VENDOR_WEBGL_def UNMASKED_RENDERER_WEBGL_def)

theorem getParameter_spoofed_tokens_witness:
  "VENDOR webgl_constants = JNumber 0x1F00 \<and> RENDERER webgl_constants = JNumber 0x1F01 \<and>
   getParameter_spoofed
     \<lparr>config_seed = Num 42, session_prng = 42, activeProfile = nvidia_rtx_3080, enabled = True\<rparr>
     webgl_constants (\<lambda>p. Inr (JNumber 16384)) (JNumber 0x9246) =
     Inr (JString ''ANGLE (NVIDIA, NVIDIA GeForce RTX 3080 Direct3D11 vs_5_0 ps_5_0, D3D11)'') \<and>
   getParameter_spoofed
     \<lparr>config_seed = Num 42, session_prng = 42, activeProfile = nvidia_rtx_3080, enabled = True\<rparr>
     webgl_constants (\<lambda>p. Inr (JNumber 16384)) (JNumber 0x1F00) = Inr (JString ''WebKit'') \<and>
   JNumber 0x0D33 \<noteq> JNumber 0x9245 \<and> JNumber 0x0D33 \<noteq> JNumber 0x9246 \<and>
   JNumber 0x0D33 \<noteq> VENDOR webgl_constants \<and> JNumber 0x0D33 \<noteq> RENDERER webgl_constants \<and>
   getParameter_spoofed
     \<lparr>config_seed = Num 42, session_prng = 42, activeProfile = nvidia_rtx_3080, enabled = True\<rparr>
     webgl_constants (\<lambda>p. Inr (JNumber 16384)) (JNumber 0x0D33) = Inr (JNumber 16384)"
  using getParameter_spoofed_tokens
    [where gl = webgl_constants
       and sess = "\<lparr>config_seed = Num 42, session_prng = 42, activeProfile = nvidia_rtx_3080,
                     enabled = True\<rparr>"
       and originalGetParameter = "\<lambda>p. Inr (JNumber 16384)" and pname = "JNumber 0x0D33"]
  by (simp add: webgl_constants_def nvidia_rtx_3080_def)

text \<open>
  Claim C8, at an input where the code departs from it. The offset the \<^verbatim>\<open>readPixels\<close>
  wrapper adds is \<^verbatim>\<open>(hash % 7) - 3\<close> with a signed 32-bit hash, so it lies in -9..3 and not
  in the documented -3..3: reading the one pixel at (0, 0) in RGBA moves the three colour
  bytes by -6, -5 and -4. The alpha byte is left as it was.
\<close>

theorem readPixels_offset_below_documented_range:
  "pixelNoise 0 0 1 1 0 = - 6 \<and>
   readPixels_spoofed sess webgl_constants (\<lambda>r f t. Inr (Some [10, 10, 10, 255]))
       0 0 1 1 (JNumber 0x1908) (JNumber 0x1401) = Inr (Some [4, 5, 6, 255])"
  by (simp add: readPixels_spoofed_def webgl_constants_def readbackLoop_one_pixel
        pixelNoise_one_pixel)

text \<open>
  Claim C9. Whatever the generator state, the noise ranges, the read rectangle and the
  format, a buffer of byte values is a buffer of byte values after the read-back noise of
  the 2D module and after the perturbation of the WebGL \<^verbatim>\<open>readPixels\<close> wrapper, from any
  index on.
\<close>

theorem noise_keeps_byte_range:
  assumes "byte_range buf"
  shows "byte_range (noiseLoop st pixelRange alphaRange i buf) \<and>
         byte_range (readbackLoop x y w h isRGB i buf)"
  using assms by (simp add: byte_range_noiseLoop byte_range_readbackLoop)

theorem noise_keeps_byte_range_witness:
  "byte_range [250, 3, 0, 255] \<and>
   byte_range (noiseLoop 1 5 3 0 [250, 3, 0, 255]) \<and>
   byte_range (readbackLoop 0 0 1 1 False 0 [250, 3, 0, 255])"
  using noise_keeps_byte_range
    [where buf = "[250, 3, 0, 255]" and st = 1 and pixelRange = 5 and alphaRange = 3 and i = 0
       and x = 0 and y = 0 and w = 1 and h = 1 and isRGB = False]
  by (simp add: byte_range_def)

text \<open>
  Claim C10. The \<^verbatim>\<open>readPixels\<close>, \<^verbatim>\<open>toDataURL\<close> and \<^verbatim>\<open>toBlob\<close> wrappers of the WebGL
  module return the same result in any two sessions, whatever their seeds, generator
  states and profiles: the perturbation does not read the session. The same holds for what
  a page calls on a context it got from the hooked \<^verbatim>\<open>getContext\<close>, however many times it
  called it, for any two sessions that are both enabled or both disabled and whose profiles
  come from the catalogue, since every profile of the catalogue gets the wrappers installed
  for the same context types.
\<close>

theorem webgl_noise_ignores_session:
  "readPixels_spoofed sess1 gl originalReadPixels x y w h format ty =
     readPixels_spoofed sess2 gl originalReadPixels x y w h format ty \<and>
   toDataURL_spoofed sess1 gl_canvas originalToDataURL snapshot encode this args =
     toDataURL_spoofed sess2 gl_canvas originalToDataURL snapshot encode this args \<and>
   toBlob_spoofed sess1 gl_canvas originalToBlob snapshot encodeBlob this blobArgs =
     toBlob_spoofed sess2 gl_canvas originalToBlob snapshot encodeBlob this blobArgs \<and>
   (activeProfile sess1 \<in> set profiles \<and> activeProfile sess2 \<in> set profiles \<and>
    enabled sess1 = enabled sess2 \<longrightarrow>
      context_readPixels sess1 contextType calls gl originalReadPixels x y w h format ty =
        context_readPixels sess2 contextType calls gl originalReadPixels x y w h format ty \<and>
      context_toDataURL sess1 contextType calls gl_canvas originalToDataURL snapshot encode this args =
        context_toDataURL sess2 contextType calls gl_canvas originalToDataURL snapshot encode this args \<and>
      context_toBlob sess1 contextType calls gl_canvas originalToBlob snapshot encodeBlob this blobArgs =
        context_toBlob sess2 contextType calls gl_canvas originalToBlob snapshot encodeBlob this blobArgs)"
proof -
  have wrappers:
    "readPixels_spoofed sess1 gl f x y w h = readPixels_spoofed sess2 gl f x y w h"
    "toDataURL_spoofed sess1 gl_canvas g snapshot encode = toDataURL_spoofed sess2 gl_canvas g snapshot encode"
    "toBlob_spoofed sess1 gl_canvas k snapshot encodeBlob = toBlob_spoofed sess2 gl_canvas k snapshot encodeBlob"
    for f x y w h g k
    by (simp_all add: readPixels_spoofed_def toDataURL_spoofed_def toBlob_spoofed_def fun_eq_iff)
  have stacks:
    "readPixels_stacked sess1 gl originalReadPixels calls = readPixels_stacked sess2 gl originalReadPixels calls"
    "toDataURL_stacked sess1 gl_canvas originalToDataURL snapshot encode calls =
       toDataURL_stacked sess2 gl_canvas originalToDataURL snapshot encode calls"
    "toBlob_stacked sess1 gl_canvas originalToBlob snapshot encodeBlob calls =
       toBlob_stacked sess2 gl_canvas originalToBlob snapshot encodeBlob calls"
    by (induction calls) (simp_all add: wrappers)
  show ?thesis
    using wrappers stacks context_spoofed_catalogue[of sess1 sess2 contextType]
    by (simp add: context_readPixels_def context_toDataURL_def context_toBlob_def)
qed

theorem webgl_noise_ignores_session_witness:
  "activeProfile \<lparr>config_seed = Num 1, session_prng = 1, activeProfile = nvidia_rtx_3080,
                  enabled = True\<rparr> \<in> set profiles \<and>
   activeProfile \<lparr>config_seed = Num 2, session_prng = 2, activeProfile = amd_radeon_rx_6800,
                  enabled = True\<rparr> \<in> set profiles \<and>
   context_readPixels
     \<lparr>config_seed = Num 1, session_prng = 1, activeProfile = nvidia_rtx_3080, enabled = True\<rparr>
     ''webgl2'' 2 webgl_constants (\<lambda>r f t. Inr (Some [10, 10, 10, 255]))
     0 0 1 1 (JNumber 0x1908) (JNumber 0x1401) =
   context_readPixels
     \<lparr>config_seed = Num 2, session_prng = 2, activeProfile = amd_radeon_rx_6800, enabled = True\<rparr>
     ''webgl2'' 2 webgl_constants (\<lambda>r f t. Inr (Some [10, 10, 10, 255]))
     0 0 1 1 (JNumber 0x1908) (JNumber 0x1401) \<and>
   context_readPixels
     \<lparr>config_seed = Num 2, session_prng = 2, activeProfile = amd_radeon_rx_6800, enabled = True\<rparr>
     ''webgl2'' 2 webgl_constants (\<lambda>r f t. Inr (Some [10, 10, 10, 255]))
     0 0 1 1 (JNumber 0x1908) (JNumber 0x1401) = Inr (Some [0, 0, 2, 255]) \<and>
   context_readPixels
     \<lparr>config_seed = Num 2, session_prng = 2, activeProfile = amd_radeon_rx_6800, enabled = True\<rparr>
     ''webgl2'' 1 webgl_constants (\<lambda>r f t. Inr (Some [10, 10, 10, 255]))
     0 0 1 1 (JNumber 0x1908) (JNumber 0x1401) = Inr (Some [4, 5, 6, 255])"
  using webgl_noise_ignores_session
    [where ?sess1.0 = "\<lparr>config_seed = Num 1, session_prng = 1, activeProfile = nvidia_rtx_3080,
                         enabled = True\<rparr>"
       and ?sess2.0 = "\<lparr>config_seed = Num 2, session_prng = 2,
                         activeProfile = amd_radeon_rx_6800, enabled = True\<rparr>"
       and contextType = "''webgl2''" and calls = 2 and gl = webgl_constants
       and originalReadPixels = "\<lambda>r f t. Inr (Some [10, 10, 10, 255])"
       and x = 0 and y = 0 and w = 1 and h = 1
       and format = "JNumber 0x1908" and ty = "JNumber 0x1401"
       and gl_canvas = "\<lparr>handle = 1, surface = \<lparr>width = 1, height = 1, element_id = []\<rparr>\<rparr>"
       and this = "\<lparr>handle = 1, surface = \<lparr>width = 1, height = 1, element_id = []\<rparr>\<rparr>"
       and originalToDataURL = "\<lambda>c a. Inr ''data:native''" and args = "()"
       and snapshot = "\<lambda>c. Inr [10, 10, 10, 255]"
       and encode = "\<lambda>w h px a. Inr ''data:noised''"
       and originalToBlob = "\<lambda>c a. Inr ''blob:native''" and blobArgs = "()"
       and encodeBlob = "\<lambda>w h px a. Inr ''blob:noised''"]
  by (simp add: profiles_def context_readPixels_def context_spoofed_def
        applyWebGLSpoofing_installs_def webgl_context_types_def amd_radeon_rx_6800_def
        readPixels_spoofed_def webgl_constants_def readbackLoop_one_pixel
        readbackLoop_second_time numeral_2_eq_2)

end
